theory Spec2Isabelle
  imports Main "HOL-Library.Log_Nat"
begin

unbundle bit_operations_syntax

section \<open>Machine integers\<close>

text \<open>
  The C integers of \<^verbatim>\<open>sqz.h\<close> are modelled as \<^typ>\<open>int\<close> with the conversions
  written out: \<open>u8\<close>, \<open>u32\<close> reduce modulo the width, \<open>s16\<close> and \<open>s32\<close> read the
  low bits as two's complement.  Values of type \<^verbatim>\<open>size_t\<close> that only count or index
  are \<^typ>\<open>nat\<close> (a 64-bit \<^verbatim>\<open>size_t\<close> is assumed, so that products of validated
  dimensions do not wrap).
\<close>

definition u8 :: "int \<Rightarrow> int" where
  "u8 x = x mod 2 ^ 8"

definition u32 :: "int \<Rightarrow> int" where
  "u32 x = x mod 2 ^ 32"

definition s16 :: "int \<Rightarrow> int" where
  "s16 x = (x + 2 ^ 15) mod 2 ^ 16 - 2 ^ 15"

definition s32 :: "int \<Rightarrow> int" where
  "s32 x = (x + 2 ^ 31) mod 2 ^ 32 - 2 ^ 31"

definition usize :: "int \<Rightarrow> nat" where
  "usize x = nat (x mod 2 ^ 64)"

text \<open>C's \<^verbatim>\<open>!!x\<close> and the value of a comparison.\<close>

definition c_bool :: "bool \<Rightarrow> int" where
  "c_bool b = (if b then 1 else 0)"

text \<open>C's \<^verbatim>\<open>/\<close> and \<^verbatim>\<open>%\<close> on signed integers truncate towards zero.\<close>

definition c_div :: "int \<Rightarrow> int \<Rightarrow> int" where
  "c_div a b = sgn a * sgn b * (\<bar>a\<bar> div \<bar>b\<bar>)"

definition c_mod :: "int \<Rightarrow> int \<Rightarrow> int" where
  "c_mod a b = a - b * c_div a b"

section \<open>Status codes and the image descriptor\<close>

datatype SQZ_status_t =
    SQZ_RESULT_OK
  | SQZ_OUT_OF_MEMORY
  | SQZ_INVALID_PARAMETER
  | SQZ_BUFFER_TOO_SMALL
  | SQZ_DATA_CORRUPTED

text \<open>The enumerations are C \<^verbatim>\<open>int\<close>s; a caller can store any value in them.\<close>

definition SQZ_COLOR_MODE_GRAYSCALE :: int where "SQZ_COLOR_MODE_GRAYSCALE = 0"
definition SQZ_COLOR_MODE_YCOCG_R :: int where "SQZ_COLOR_MODE_YCOCG_R = 1"
definition SQZ_COLOR_MODE_OKLAB :: int where "SQZ_COLOR_MODE_OKLAB = 2"
definition SQZ_COLOR_MODE_LOG_L1 :: int where "SQZ_COLOR_MODE_LOG_L1 = 3"
definition SQZ_COLOR_MODE_COUNT :: int where "SQZ_COLOR_MODE_COUNT = 4"

definition SQZ_SCAN_ORDER_RASTER :: int where "SQZ_SCAN_ORDER_RASTER = 0"
definition SQZ_SCAN_ORDER_SNAKE :: int where "SQZ_SCAN_ORDER_SNAKE = 1"
definition SQZ_SCAN_ORDER_MORTON :: int where "SQZ_SCAN_ORDER_MORTON = 2"
definition SQZ_SCAN_ORDER_HILBERT :: int where "SQZ_SCAN_ORDER_HILBERT = 3"
definition SQZ_SCAN_ORDER_COUNT :: int where "SQZ_SCAN_ORDER_COUNT = 4"

definition SQZ_DWT_MAX_LEVEL :: nat where "SQZ_DWT_MAX_LEVEL = 8"
definition SQZ_MIN_DIMENSION :: nat where "SQZ_MIN_DIMENSION = 8"
definition SQZ_MAX_DIMENSION :: nat where "SQZ_MAX_DIMENSION = 2 ^ 16 - 1"
definition SQZ_HEADER_MAGIC :: int where "SQZ_HEADER_MAGIC = 0xA5"
definition SQZ_HEADER_SIZE :: nat where "SQZ_HEADER_SIZE = 6"
definition SQZ_SPECTRAL_PLANES :: nat where "SQZ_SPECTRAL_PLANES = 3"
definition SQZ_DWT_SUBBANDS :: nat where "SQZ_DWT_SUBBANDS = 4"

record SQZ_image_descriptor_t =
  desc_color_mode :: int
  desc_scan_order :: int
  desc_width :: nat
  desc_height :: nat
  desc_dwt_levels :: nat
  desc_num_planes :: nat
  desc_subsampling :: int

section \<open>Integer helpers\<close>

text \<open>\<^verbatim>\<open>__builtin_clz\<close> on a 32-bit value: the number of zero bits above the leading one.\<close>

definition builtin_clz :: "int \<Rightarrow> nat" where
  "builtin_clz x = length (takeWhile (\<lambda>i. \<not> bit x i) (rev [0..<32]))"

definition SQZ_ilog2 :: "int \<Rightarrow> int" where
  "SQZ_ilog2 x = (if x \<noteq> 0 then u32 (32 - int (builtin_clz x)) else x)"

partial_function (option) SQZ_mirror_loop :: "int \<Rightarrow> int \<Rightarrow> int option" where
  [code]: "SQZ_mirror_loop v maximum =
     (if u32 v > u32 maximum
      then (let v1 = s32 (- v);
                v2 = (if v1 < 0 then s32 (v1 + s32 (2 * maximum)) else v1)
            in SQZ_mirror_loop v2 maximum)
      else Some (u32 v))"

definition SQZ_mirror :: "int \<Rightarrow> int \<Rightarrow> int option" where
  "SQZ_mirror v maximum = (if maximum = 0 then Some 0 else SQZ_mirror_loop v maximum)"

definition SQZ_deinterleave_u32_to_u16 :: "int \<Rightarrow> int" where
  "SQZ_deinterleave_u32_to_u16 i0 =
     (let i1 = i0 AND 0x55555555;
          i2 = (i1 XOR drop_bit 1 i1) AND 0x33333333;
          i3 = (i2 XOR drop_bit 2 i2) AND 0x0F0F0F0F;
          i4 = (i3 XOR drop_bit 4 i3) AND 0x00FF00FF;
          i5 = (i4 XOR drop_bit 8 i4) AND 0x0000FFFF
      in i5)"

definition SQZ_interleave_u16_to_u32 :: "int \<Rightarrow> int" where
  "SQZ_interleave_u16_to_u32 i0 =
     (let i1 = i0 AND 0x0000FFFF;
          i2 = (i1 XOR u32 (push_bit 8 i1)) AND 0x00FF00FF;
          i3 = (i2 XOR u32 (push_bit 4 i2)) AND 0x0F0F0F0F;
          i4 = (i3 XOR u32 (push_bit 2 i3)) AND 0x33333333;
          i5 = (i4 XOR u32 (push_bit 1 i4)) AND 0x55555555
      in i5)"

section \<open>Bit buffer\<close>

text \<open>
  \<open>buf_data\<close> holds the bytes of the memory block the buffer was initialised on;
  \<open>buf_ptr\<close> and \<open>buf_eob\<close> are offsets into it.
\<close>

record SQZ_bit_buffer_t =
  buf_data :: "int list"
  buf_ptr :: nat
  buf_eob :: nat
  buf_index :: nat

definition SQZ_BIT_BUFFER_MSB :: nat where "SQZ_BIT_BUFFER_MSB = 7"

definition SQZ_bit_buffer_init :: "int list \<Rightarrow> nat \<Rightarrow> SQZ_bit_buffer_t" where
  "SQZ_bit_buffer_init source capacity =
     \<lparr>buf_data = source, buf_ptr = 0, buf_eob = capacity, buf_index = 0\<rparr>"

definition SQZ_bit_buffer_eob :: "SQZ_bit_buffer_t \<Rightarrow> bool" where
  "SQZ_bit_buffer_eob buffer = (buf_ptr buffer \<ge> buf_eob buffer)"

definition SQZ_bit_buffer_bits_used :: "SQZ_bit_buffer_t \<Rightarrow> nat" where
  "SQZ_bit_buffer_bits_used buffer = buf_ptr buffer * 8 + buf_index buffer"

text \<open>\<^verbatim>\<open>*(buffer->ptr) |= v\<close>: the OR is computed in 32 bits and stored as a byte.\<close>

definition buf_or_byte :: "SQZ_bit_buffer_t \<Rightarrow> int \<Rightarrow> SQZ_bit_buffer_t" where
  "buf_or_byte buffer v =
     buffer\<lparr>buf_data := (buf_data buffer)[buf_ptr buffer := u8 ((buf_data buffer ! buf_ptr buffer) OR v)]\<rparr>"

definition SQZ_bit_buffer_write_bit :: "SQZ_bit_buffer_t \<Rightarrow> int \<Rightarrow> int \<times> SQZ_bit_buffer_t" where
  "SQZ_bit_buffer_write_bit buffer b =
     (if SQZ_bit_buffer_eob buffer then (0, buffer)
      else
        let b1 = buf_or_byte buffer (u32 (push_bit (SQZ_BIT_BUFFER_MSB - buf_index buffer) b))
        in if buf_index b1 < SQZ_BIT_BUFFER_MSB
           then (1, b1\<lparr>buf_index := buf_index b1 + 1\<rparr>)
           else (1, b1\<lparr>buf_ptr := buf_ptr b1 + 1, buf_index := 0\<rparr>))"

function SQZ_bit_buffer_write_bits :: "SQZ_bit_buffer_t \<Rightarrow> int \<Rightarrow> nat \<Rightarrow> int \<times> SQZ_bit_buffer_t" where
  "SQZ_bit_buffer_write_bits buffer bits width =
     (if SQZ_bit_buffer_eob buffer then (0, buffer)
      else
        let bits_free = (SQZ_BIT_BUFFER_MSB + 1) - buf_index buffer
        in if bits_free \<ge> width
           then
             let b1 = buf_or_byte buffer
                        (u32 (push_bit (bits_free - width) (bits AND (u32 (push_bit width 1) - 1))));
                 b2 = b1\<lparr>buf_index := buf_index b1 + width\<rparr>
             in if buf_index b2 > SQZ_BIT_BUFFER_MSB
                then (1, b2\<lparr>buf_ptr := buf_ptr b2 + 1, buf_index := 0\<rparr>)
                else (1, b2)
           else
             let b1 = buf_or_byte buffer
                        (drop_bit (width - bits_free) bits AND (u32 (push_bit bits_free 1) - 1))
             in SQZ_bit_buffer_write_bits (b1\<lparr>buf_ptr := buf_ptr b1 + 1, buf_index := 0\<rparr>)
                  bits (width - bits_free))"
  by pat_completeness auto
termination
  by (relation "measure (\<lambda>(buffer, bits, width). buf_eob buffer - buf_ptr buffer)")
     (auto simp: SQZ_bit_buffer_eob_def buf_or_byte_def)

declare SQZ_bit_buffer_write_bits.simps [simp del]





section \<open>Subbands, planes and the codec context\<close>

text \<open>
  The three lists of a subband are singly-linked lists over a node cache in the source.
  Here each list is the sequence of coordinate pairs it links, head first; the cache is
  represented by its capacity and the index of its first free node.
\<close>

record SQZ_dwt_subband_t =
  band_cache_capacity :: nat
  band_cache_index :: nat
  band_LIP :: "(nat \<times> nat) list"
  band_LSP :: "(nat \<times> nat) list"
  band_NSP :: "(nat \<times> nat) list"
  band_data :: nat
  band_width :: nat
  band_height :: nat
  band_stride :: nat
  band_max_bitplane :: int
  band_bitplane :: int
  band_round :: int

definition zero_band :: SQZ_dwt_subband_t where
  "zero_band = \<lparr>band_cache_capacity = 0, band_cache_index = 0,
                 band_LIP = [], band_LSP = [], band_NSP = [],
                 band_data = 0, band_width = 0, band_height = 0, band_stride = 0,
                 band_max_bitplane = 0, band_bitplane = 0, band_round = 0\<rparr>"

text \<open>
  \<open>ctx_data\<close> is the coefficient buffer shared by all planes; \<open>ctx_plane_data\<close> and
  \<open>band_data\<close> are offsets into it.  \<open>ctx_band plane level orientation\<close> is
  \<^verbatim>\<open>ctx->plane[plane].band[level][orientation]\<close>.
\<close>

record SQZ_context_t =
  ctx_band :: "nat \<Rightarrow> nat \<Rightarrow> nat \<Rightarrow> SQZ_dwt_subband_t"
  ctx_plane_data :: "nat \<Rightarrow> nat"
  ctx_data :: "int list"
  ctx_buffer :: SQZ_bit_buffer_t
  ctx_image :: SQZ_image_descriptor_t

definition zero_descriptor :: SQZ_image_descriptor_t where
  "zero_descriptor = \<lparr>desc_color_mode = 0, desc_scan_order = 0, desc_width = 0, desc_height = 0,
                       desc_dwt_levels = 0, desc_num_planes = 0, desc_subsampling = 0\<rparr>"

definition zero_context :: SQZ_context_t where
  "zero_context = \<lparr>ctx_band = (\<lambda>plane level orientation. zero_band),
                    ctx_plane_data = (\<lambda>plane. 0), ctx_data = [],
                    ctx_buffer = \<lparr>buf_data = [], buf_ptr = 0, buf_eob = 0, buf_index = 0\<rparr>,
                    ctx_image = zero_descriptor\<rparr>"

definition set_band :: "SQZ_context_t \<Rightarrow> nat \<Rightarrow> nat \<Rightarrow> nat \<Rightarrow> SQZ_dwt_subband_t \<Rightarrow> SQZ_context_t" where
  "set_band ctx plane level orientation band =
     ctx\<lparr>ctx_band := (\<lambda>p l orn. if p = plane \<and> l = level \<and> orn = orientation then band
                               else ctx_band ctx p l orn)\<rparr>"

definition SQZ_number_of_planes :: "int \<Rightarrow> nat" where
  "SQZ_number_of_planes color_mode = [1, 3, 3, 3] ! nat color_mode"

definition SQZ_schedule_luma :: "nat list list" where
  "SQZ_schedule_luma =
     [[0, 1, 1, 2], [0, 2, 2, 3], [0, 3, 3, 4], [0, 4, 4, 5],
      [0, 5, 5, 6], [0, 6, 6, 7], [0, 7, 7, 8], [0, 8, 8, 9]]"

definition SQZ_schedule_chroma :: "nat list list" where
  "SQZ_schedule_chroma =
     [[1, 2, 2, 3], [0, 3, 3, 4], [0, 4, 4, 5], [0, 5, 5, 6],
      [0, 6, 6, 7], [0, 7, 7, 8], [0, 8, 8, 9], [0, 9, 9, 10]]"

definition SQZ_schedule_zero :: "nat list list" where
  "SQZ_schedule_zero = replicate 8 [0, 0, 0, 0]"

definition SQZ_schedule_table :: "nat list list list list" where
  "SQZ_schedule_table =
     [[SQZ_schedule_luma, SQZ_schedule_zero, SQZ_schedule_zero],
      [SQZ_schedule_luma, SQZ_schedule_chroma, SQZ_schedule_chroma],
      [SQZ_schedule_luma, SQZ_schedule_chroma, SQZ_schedule_chroma],
      [SQZ_schedule_luma, SQZ_schedule_chroma, SQZ_schedule_chroma]]"

definition SQZ_schedule :: "int \<Rightarrow> nat \<Rightarrow> nat \<Rightarrow> nat \<Rightarrow> nat" where
  "SQZ_schedule color_mode plane level orientation =
     SQZ_schedule_table ! nat color_mode ! plane ! level ! orientation"

text \<open>
  \<^verbatim>\<open>SQZ_common_init_context\<close>.  The allocation is assumed to succeed; the body of the
  innermost loop is \<open>init_context_band\<close>.
\<close>

definition init_context_band ::
  "SQZ_context_t \<Rightarrow> nat \<Rightarrow> nat \<Rightarrow> nat \<Rightarrow> nat \<Rightarrow> nat \<Rightarrow> SQZ_dwt_subband_t" where
  "init_context_band ctx plane level w h orientation =
     (let band0 = ctx_band ctx plane level orientation;
          stride = push_bit (desc_dwt_levels (ctx_image ctx) - level) (desc_width (ctx_image ctx));
          d0 = ctx_plane_data ctx plane;
          d1 = (if orientation AND 1 \<noteq> 0 then d0 + drop_bit 1 (w + 1) else d0);
          d2 = (if orientation > 1 then d1 + drop_bit 1 stride else d1)
      in band0\<lparr>band_data := d2,
               band_width := drop_bit 1 (w + nat (c_bool (orientation AND 1 = 0))),
               band_height := drop_bit 1 (h + nat (c_bool (\<not> orientation > 1))),
               band_round := int (SQZ_schedule (desc_color_mode (ctx_image ctx)) plane level orientation)
                               + (desc_subsampling (ctx_image ctx) AND c_bool (plane > 0)),
               band_stride := stride\<rparr>)"

definition init_context_level :: "nat \<Rightarrow> SQZ_context_t \<times> nat \<times> nat \<Rightarrow> nat \<Rightarrow> SQZ_context_t \<times> nat \<times> nat" where
  "init_context_level plane cwh level =
     (case cwh of (ctx, w, h) \<Rightarrow>
        (foldl (\<lambda>c orientation.
                  set_band c plane level orientation (init_context_band c plane level w h orientation))
               ctx [nat (c_bool (level > 0)) ..< SQZ_DWT_SUBBANDS],
         drop_bit 1 (w + 1), drop_bit 1 (h + 1)))"

definition init_context_plane :: "SQZ_context_t \<Rightarrow> nat \<Rightarrow> SQZ_context_t" where
  "init_context_plane ctx plane =
     (let w = desc_width (ctx_image ctx); h = desc_height (ctx_image ctx);
          c1 = ctx\<lparr>ctx_plane_data := (ctx_plane_data ctx)(plane := plane * w * h)\<rparr>
      in fst (foldl (init_context_level plane) (c1, w, h) (rev [0 ..< desc_dwt_levels (ctx_image ctx)])))"

definition SQZ_common_init_context :: "SQZ_context_t \<Rightarrow> SQZ_status_t \<times> SQZ_context_t" where
  "SQZ_common_init_context ctx =
     (let im = ctx_image ctx;
          c0 = ctx\<lparr>ctx_data := replicate (desc_width im * desc_height im * desc_num_planes im) 0\<rparr>
      in (SQZ_RESULT_OK, foldl init_context_plane c0 [0 ..< desc_num_planes im]))"

section \<open>Input validation\<close>

definition SQZ_validate_input ::
  "SQZ_image_descriptor_t \<Rightarrow> bool \<Rightarrow> SQZ_status_t \<times> SQZ_image_descriptor_t" where
  "SQZ_validate_input descriptor read_only =
     (if desc_width descriptor < SQZ_MIN_DIMENSION \<or> desc_width descriptor > SQZ_MAX_DIMENSION \<or>
         desc_height descriptor < SQZ_MIN_DIMENSION \<or> desc_height descriptor > SQZ_MAX_DIMENSION \<or>
         desc_color_mode descriptor < SQZ_COLOR_MODE_GRAYSCALE \<or>
         desc_color_mode descriptor \<ge> SQZ_COLOR_MODE_COUNT \<or>
         desc_scan_order descriptor < SQZ_SCAN_ORDER_RASTER \<or>
         desc_scan_order descriptor \<ge> SQZ_SCAN_ORDER_COUNT \<or>
         desc_dwt_levels descriptor = 0 \<or> desc_dwt_levels descriptor > SQZ_DWT_MAX_LEVEL
      then (if read_only then SQZ_DATA_CORRUPTED else SQZ_INVALID_PARAMETER, descriptor)
      else
        let smallest_dimension =
              (if desc_width descriptor > desc_height descriptor
               then desc_height descriptor else desc_width descriptor);
            max_level0 = u32 (SQZ_ilog2 (u32 (int smallest_dimension)) - 3);
            max_level = (if max_level0 > int SQZ_DWT_MAX_LEVEL then int SQZ_DWT_MAX_LEVEL else max_level0);
            finish = (\<lambda>d. (SQZ_RESULT_OK,
                           if \<not> read_only
                           then d\<lparr>desc_num_planes := SQZ_number_of_planes (desc_color_mode d)\<rparr>
                           else d))
        in if int (desc_dwt_levels descriptor) > max_level
           then (if read_only then (SQZ_DATA_CORRUPTED, descriptor)
                 else finish (descriptor\<lparr>desc_dwt_levels := nat max_level\<rparr>))
           else finish descriptor)"

section \<open>Node lists\<close>

text \<open>
  \<^verbatim>\<open>SQZ_list_add\<close> takes the next free node of the cache and links it at the tail; when
  the cache is exhausted it does nothing.  The arguments are the cache (capacity and index
  of the first free node) and the list.
\<close>

definition SQZ_list_add ::
  "nat \<times> nat \<Rightarrow> (nat \<times> nat) list \<Rightarrow> nat \<Rightarrow> nat \<Rightarrow> (nat \<times> nat) \<times> (nat \<times> nat) list" where
  "SQZ_list_add cache list x y =
     (case cache of (capacity, index) \<Rightarrow>
        if index \<ge> capacity then (cache, list)
        else ((capacity, index + 1), list @ [(x, y)]))"

text \<open>\<^verbatim>\<open>SQZ_list_merge\<close> appends the source list to the destination and clears the source.\<close>

definition SQZ_list_merge ::
  "(nat \<times> nat) list \<Rightarrow> (nat \<times> nat) list \<Rightarrow> (nat \<times> nat) list \<times> (nat \<times> nat) list" where
  "SQZ_list_merge source dest = (if source = [] then (source, dest) else ([], dest @ source))"

section \<open>Scan orders\<close>

record SQZ_snake_scan_context_t =
  snake_tile_x :: nat
  snake_tile_y :: nat
  snake_tile_width :: nat
  snake_tile_height :: nat
  snake_tile_columns_remaining :: nat
  snake_tile_columns_right_to_left :: int
  snake_tile_rows_remaining :: nat
  snake_tile_defaults_width :: nat
  snake_tile_defaults_height :: nat
  snake_grid_x :: nat
  snake_grid_y :: nat
  snake_grid_width :: nat
  snake_grid_height :: nat
  snake_grid_columns_index :: nat
  snake_grid_columns_odd :: int
  snake_grid_rows_odd :: int
  snake_offsets_x :: nat
  snake_offsets_y :: nat

record SQZ_morton_scan_context_t =
  morton_range :: nat
  morton_mask :: nat
  morton_index :: nat
  morton_length :: nat

record SQZ_hilbert_scan_stack_item_t =
  item_x :: int
  item_y :: int
  item_ax :: int
  item_ay :: int
  item_bx :: int
  item_by :: int

text \<open>The stack of the Hilbert scan is a list with its top item first.\<close>

record SQZ_hilbert_scan_context_t =
  hilbert_stack :: "SQZ_hilbert_scan_stack_item_t list"
  hilbert_width :: int
  hilbert_height :: int
  hilbert_dax :: int
  hilbert_day :: int
  hilbert_dbx :: int
  hilbert_dby :: int
  hilbert_index :: int

datatype SQZ_scan_workspace =
    WS_NULL
  | WS_snake SQZ_snake_scan_context_t
  | WS_morton SQZ_morton_scan_context_t
  | WS_hilbert SQZ_hilbert_scan_context_t

text \<open>
  The \<^verbatim>\<open>scan\<close> function pointer of the source always matches \<open>scan_type\<close>, which selects
  the traverse function in \<open>SQZ_scan\<close> below.
\<close>

record SQZ_scan_context_t =
  scan_workspace :: SQZ_scan_workspace
  scan_type :: int
  scan_x :: nat
  scan_y :: nat
  scan_width :: nat
  scan_height :: nat

definition zero_scan_context :: SQZ_scan_context_t where
  "zero_scan_context = \<lparr>scan_workspace = WS_NULL, scan_type = 0, scan_x = 0, scan_y = 0,
                         scan_width = 0, scan_height = 0\<rparr>"

subsection \<open>Raster\<close>

definition SQZ_scan_raster :: "SQZ_scan_context_t \<Rightarrow> int \<times> SQZ_scan_context_t" where
  "SQZ_scan_raster ctx =
     (let c1 = ctx\<lparr>scan_x := scan_x ctx + 1\<rparr>
      in if scan_x c1 \<ge> scan_width c1
         then let c2 = c1\<lparr>scan_x := 0, scan_y := scan_y c1 + 1\<rparr>
              in if scan_y c2 \<ge> scan_height c2 then (0, c2) else (1, c2)
         else (1, c1))"

definition SQZ_scan_init_raster_context ::
  "SQZ_scan_context_t \<Rightarrow> nat \<Rightarrow> nat \<Rightarrow> SQZ_status_t \<times> SQZ_scan_context_t" where
  "SQZ_scan_init_raster_context ctx width height =
     (SQZ_RESULT_OK,
      ctx\<lparr>scan_type := SQZ_SCAN_ORDER_RASTER, scan_x := 0, scan_y := 0,
          scan_width := width, scan_height := height\<rparr>)"

subsection \<open>Snake\<close>

text \<open>The three labels of \<^verbatim>\<open>SQZ_scan_snake\<close>, innermost first.\<close>

definition snake_loop_tile_columns ::
  "SQZ_scan_context_t \<Rightarrow> SQZ_snake_scan_context_t \<Rightarrow> SQZ_scan_context_t \<times> SQZ_snake_scan_context_t" where
  "snake_loop_tile_columns ctx snake =
     (ctx\<lparr>scan_x := (if snake_tile_columns_right_to_left snake \<noteq> 0
                      then (snake_tile_width snake - 1) - snake_tile_x snake
                      else snake_tile_x snake) + snake_offsets_x snake,
          scan_y := (if snake_grid_columns_odd snake \<noteq> 0
                      then (snake_tile_height snake - 1) - snake_tile_y snake
                      else snake_tile_y snake) + snake_offsets_y snake\<rparr>,
      snake)"

definition snake_loop_tile_rows ::
  "SQZ_scan_context_t \<Rightarrow> SQZ_snake_scan_context_t \<Rightarrow> SQZ_scan_context_t \<times> SQZ_snake_scan_context_t" where
  "snake_loop_tile_rows ctx snake =
     (let row = (if snake_grid_columns_odd snake \<noteq> 0
                 then (snake_tile_height snake - 1) - snake_tile_y snake
                 else snake_tile_y snake)
      in snake_loop_tile_columns ctx
           (snake\<lparr>snake_tile_columns_right_to_left := int ((snake_grid_y snake XOR row) AND 1)\<rparr>))"

definition snake_loop_grid_columns ::
  "SQZ_scan_context_t \<Rightarrow> SQZ_snake_scan_context_t \<Rightarrow> SQZ_scan_context_t \<times> SQZ_snake_scan_context_t" where
  "snake_loop_grid_columns ctx snake =
     (let width = snake_grid_width snake - 1;
          gx = (if snake_grid_rows_odd snake \<noteq> 0 then width - snake_grid_columns_index snake
                else snake_grid_columns_index snake)
      in snake_loop_tile_rows ctx
           (snake\<lparr>snake_grid_x := gx,
                  snake_grid_columns_odd := int (gx AND 1),
                  snake_tile_width := (if gx < width then snake_tile_defaults_width snake
                                       else snake_tile_columns_remaining snake),
                  snake_offsets_x := gx * snake_tile_defaults_width snake\<rparr>))"

definition SQZ_scan_snake ::
  "SQZ_scan_context_t \<Rightarrow> SQZ_snake_scan_context_t \<Rightarrow>
     int \<times> SQZ_scan_context_t \<times> SQZ_snake_scan_context_t" where
  "SQZ_scan_snake ctx snake0 =
     (let s1 = snake0\<lparr>snake_tile_x := snake_tile_x snake0 + 1\<rparr>
      in if snake_tile_x s1 < snake_tile_width s1
         then (1, snake_loop_tile_columns ctx s1)
         else
           let s2 = s1\<lparr>snake_tile_x := 0, snake_tile_y := snake_tile_y s1 + 1\<rparr>
           in if snake_tile_y s2 < snake_tile_height s2
              then (1, snake_loop_tile_rows ctx s2)
              else
                let s3 = s2\<lparr>snake_tile_y := 0,
                             snake_grid_columns_index := snake_grid_columns_index s2 + 1\<rparr>
                in if snake_grid_columns_index s3 < snake_grid_width s3
                   then (1, snake_loop_grid_columns ctx s3)
                   else
                     let s4 = s3\<lparr>snake_grid_columns_index := 0, snake_grid_y := snake_grid_y s3 + 1\<rparr>
                     in if snake_grid_y s4 < snake_grid_height s4
                        then (1, snake_loop_grid_columns ctx
                                   (s4\<lparr>snake_grid_rows_odd := int (snake_grid_y s4 AND 1),
                                       snake_tile_height :=
                                         (if snake_grid_y s4 < snake_grid_height s4 - 1
                                          then snake_tile_defaults_height s4
                                          else snake_tile_rows_remaining s4),
                                       snake_offsets_y := snake_grid_y s4 * snake_tile_defaults_height s4\<rparr>))
                        else (0, ctx, s4))"

definition zero_snake :: SQZ_snake_scan_context_t where
  "zero_snake = \<lparr>snake_tile_x = 0, snake_tile_y = 0, snake_tile_width = 0, snake_tile_height = 0,
                  snake_tile_columns_remaining = 0, snake_tile_columns_right_to_left = 0,
                  snake_tile_rows_remaining = 0, snake_tile_defaults_width = 0,
                  snake_tile_defaults_height = 0, snake_grid_x = 0, snake_grid_y = 0,
                  snake_grid_width = 0, snake_grid_height = 0, snake_grid_columns_index = 0,
                  snake_grid_columns_odd = 0, snake_grid_rows_odd = 0,
                  snake_offsets_x = 0, snake_offsets_y = 0\<rparr>"

text \<open>
  The two searches of \<^verbatim>\<open>SQZ_scan_init_snake_context\<close>: for a tile width that gives the
  grid an odd number of columns, and for a tile height whose remainder in the last grid row
  is zero or odd.  \<open>step\<close> is the \<^verbatim>\<open>int32_t\<close> of the source; adding it to a \<^verbatim>\<open>size_t\<close> wraps
  modulo \<open>2^64\<close>.  The result is the final tile size (and the last remainder).
\<close>

definition snake_next_step :: "int \<Rightarrow> int \<Rightarrow> int" where
  "snake_next_step step inc =
     s32 (s32 (- s32 (\<bar>step\<bar> + inc)) * (c_bool (step > 0) - c_bool (step < 0)))"

partial_function (option) snake_tile_width_search :: "nat \<Rightarrow> nat \<Rightarrow> int \<Rightarrow> (nat \<times> nat) option" where
  [code]: "snake_tile_width_search width tile_width step =
     (let grid_width = (width + tile_width - 1) div tile_width
      in if grid_width AND 1 = 0
         then
           let tw1 = usize (int tile_width + step);
               tw2 = (if tw1 > width then width else if tw1 = 0 then 1 else tw1)
           in snake_tile_width_search width tw2 (snake_next_step step 1)
         else Some (tile_width, grid_width))"

partial_function (option) snake_tile_height_search :: "nat \<Rightarrow> nat \<Rightarrow> int \<Rightarrow> (nat \<times> nat) option" where
  [code]: "snake_tile_height_search height tile_height step =
     (let remaining = height mod tile_height
      in if remaining > 0 \<and> remaining AND 1 = 0
         then
           let th1 = usize (int tile_height + step);
               th2 = (if th1 > height then height else if th1 = 0 then 1 else th1)
           in snake_tile_height_search height th2 (snake_next_step step 2)
         else Some (tile_height, if remaining = 0 then tile_height else remaining))"

definition SQZ_scan_init_snake_context ::
  "SQZ_scan_context_t \<Rightarrow> nat \<Rightarrow> nat \<Rightarrow> nat \<Rightarrow> nat \<Rightarrow> (SQZ_status_t \<times> SQZ_scan_context_t) option" where
  "SQZ_scan_init_snake_context ctx width height tile_width0 tile_height0 =
     (let tile_width1 = (if tile_width0 > width then width else tile_width0);
          tile_height1 = (if tile_height0 > height then height else tile_height0)
      in case snake_tile_width_search width tile_width1 1 of
           None \<Rightarrow> None
         | Some (tile_width, grid_width) \<Rightarrow>
            (case snake_tile_height_search height tile_height1 2 of
               None \<Rightarrow> None
             | Some (tile_height, rows_remaining) \<Rightarrow>
                let cr0 = width mod tile_width;
                    cr = (if cr0 = 0 then tile_width else cr0);
                    grid_height = (height + tile_height - 1) div tile_height;
                    snake = zero_snake\<lparr>
                      snake_grid_width := grid_width,
                      snake_tile_columns_remaining := cr,
                      snake_tile_width := (if grid_width > 1 \<or> cr > 0 then tile_width else cr),
                      snake_tile_defaults_width := tile_width,
                      snake_tile_rows_remaining := rows_remaining,
                      snake_grid_height := grid_height,
                      snake_tile_height :=
                        (if grid_height > 1 \<or> rows_remaining > 0 then tile_height else rows_remaining),
                      snake_tile_defaults_height := tile_height\<rparr>
                in Some (SQZ_RESULT_OK,
                         ctx\<lparr>scan_workspace := WS_snake snake, scan_type := SQZ_SCAN_ORDER_SNAKE,
                             scan_x := 0, scan_y := 0\<rparr>)))"

subsection \<open>Morton\<close>

function SQZ_scan_morton_loop ::
  "SQZ_scan_context_t \<Rightarrow> SQZ_morton_scan_context_t \<Rightarrow>
     int \<times> SQZ_scan_context_t \<times> SQZ_morton_scan_context_t" where
  "SQZ_scan_morton_loop ctx morton =
     (let m1 = morton\<lparr>morton_index := morton_index morton + 1\<rparr>;
          index = morton_index m1;
          mask = morton_mask m1;
          x0 = SQZ_deinterleave_u32_to_u16 (u32 (int (index AND mask)));
          y0 = SQZ_deinterleave_u32_to_u16 (u32 (int (drop_bit 1 index AND mask)));
          m = u32 (drop_bit (morton_range m1) ((int index AND NOT (int mask)) mod 2 ^ 64));
          x1 = (if scan_width ctx > scan_height ctx then x0 OR m else x0);
          y1 = (if scan_width ctx > scan_height ctx then y0 else y0 OR m);
          c1 = ctx\<lparr>scan_x := nat x1, scan_y := nat y1\<rparr>
      in if scan_x c1 < scan_width c1 \<and> scan_y c1 < scan_height c1 then (1, c1, m1)
         else if morton_index m1 < morton_length m1 then SQZ_scan_morton_loop c1 m1
         else (0, c1, m1))"
  by pat_completeness auto
termination
  by (relation "measure (\<lambda>(ctx, morton). morton_length morton - morton_index morton)") auto

declare SQZ_scan_morton_loop.simps [simp del]

definition SQZ_scan_morton ::
  "SQZ_scan_context_t \<Rightarrow> SQZ_morton_scan_context_t \<Rightarrow>
     int \<times> SQZ_scan_context_t \<times> SQZ_morton_scan_context_t" where
  "SQZ_scan_morton ctx morton = SQZ_scan_morton_loop ctx morton"

definition SQZ_scan_init_morton_context ::
  "SQZ_scan_context_t \<Rightarrow> nat \<Rightarrow> nat \<Rightarrow> SQZ_status_t \<times> SQZ_scan_context_t" where
  "SQZ_scan_init_morton_context ctx width height =
     (let range = nat (SQZ_ilog2 (u32 (int (if width > height then height else width) - 1)));
          mask = nat ((push_bit (range * 2) 1 - 1) mod 2 ^ 64);
          len = nat (push_bit (range + nat (SQZ_ilog2 (u32 (int (if width > height then width else height) - 1))))
                       1 mod 2 ^ 64);
          morton = \<lparr>morton_range = range, morton_mask = mask, morton_index = 0, morton_length = len\<rparr>
      in (SQZ_RESULT_OK,
          ctx\<lparr>scan_workspace := WS_morton morton, scan_type := SQZ_SCAN_ORDER_MORTON,
              scan_x := 0, scan_y := 0, scan_width := width, scan_height := height\<rparr>))"

subsection \<open>Hilbert\<close>

text \<open>
  The coordinates and vectors of the generalised Hilbert scan are \<^verbatim>\<open>int32_t\<close>s bounded by
  the subband's dimensions, so their arithmetic is written without wrap-around.
\<close>

definition SQZ_sign :: "int \<Rightarrow> int" where
  "SQZ_sign x = (if x < 0 then - 1 else if x > 0 then 1 else 0)"

definition SQZ_scan_hilbert_stack_push ::
  "SQZ_hilbert_scan_stack_item_t list \<Rightarrow> int \<Rightarrow> int \<Rightarrow> int \<Rightarrow> int \<Rightarrow> int \<Rightarrow> int \<Rightarrow>
     SQZ_hilbert_scan_stack_item_t list" where
  "SQZ_scan_hilbert_stack_push stack x y ax ay bx by =
     \<lparr>item_x = x, item_y = y, item_ax = ax, item_ay = ay, item_bx = bx, item_by = by\<rparr> # stack"

partial_function (option) SQZ_scan_hilbert ::
  "SQZ_scan_context_t \<Rightarrow> SQZ_hilbert_scan_context_t \<Rightarrow>
     (int \<times> SQZ_scan_context_t \<times> SQZ_hilbert_scan_context_t) option" where
  [code]: "SQZ_scan_hilbert ctx hilbert0 =
     (case hilbert_stack hilbert0 of
        [] \<Rightarrow> Some (0, ctx, hilbert0)
      | item # below \<Rightarrow>
         let hilbert =
               (if hilbert_index hilbert0 < 0
                then hilbert0\<lparr>hilbert_width := \<bar>item_ax item + item_ay item\<bar>,
                              hilbert_height := \<bar>item_bx item + item_by item\<bar>,
                              hilbert_dax := SQZ_sign (item_ax item),
                              hilbert_day := SQZ_sign (item_ay item),
                              hilbert_dbx := SQZ_sign (item_bx item),
                              hilbert_dby := SQZ_sign (item_by item),
                              hilbert_index := 0\<rparr>
                else hilbert0)
         in if hilbert_height hilbert = 1
            then
              if hilbert_index hilbert < hilbert_width hilbert
              then Some (1, ctx\<lparr>scan_x := usize (item_x item), scan_y := usize (item_y item)\<rparr>,
                         hilbert\<lparr>hilbert_stack := item\<lparr>item_x := item_x item + hilbert_dax hilbert,
                                                         item_y := item_y item + hilbert_day hilbert\<rparr> # below,
                                 hilbert_index := hilbert_index hilbert + 1\<rparr>)
              else SQZ_scan_hilbert ctx (hilbert\<lparr>hilbert_stack := below, hilbert_index := - 1\<rparr>)
            else if hilbert_width hilbert = 1
            then
              if hilbert_index hilbert < hilbert_height hilbert
              then Some (1, ctx\<lparr>scan_x := usize (item_x item), scan_y := usize (item_y item)\<rparr>,
                         hilbert\<lparr>hilbert_stack := item\<lparr>item_x := item_x item + hilbert_dbx hilbert,
                                                         item_y := item_y item + hilbert_dby hilbert\<rparr> # below,
                                 hilbert_index := hilbert_index hilbert + 1\<rparr>)
              else SQZ_scan_hilbert ctx (hilbert\<lparr>hilbert_stack := below, hilbert_index := - 1\<rparr>)
            else
              let ax2 = c_div (item_ax item) 2;
                  ay2 = c_div (item_ay item) 2;
                  bx2 = c_div (item_bx item) 2;
                  by2 = c_div (item_by item) 2;
                  w2 = \<bar>ax2 + ay2\<bar>;
                  h2 = \<bar>bx2 + by2\<bar>
              in if 2 * hilbert_width hilbert > 3 * hilbert_height hilbert
                 then
                   let adj = (c_mod w2 2 \<noteq> 0 \<and> hilbert_width hilbert > 2);
                       ax3 = (if adj then ax2 + hilbert_dax hilbert else ax2);
                       ay3 = (if adj then ay2 + hilbert_day hilbert else ay2);
                       st1 = SQZ_scan_hilbert_stack_push below
                               (item_x item + ax3) (item_y item + ay3)
                               (item_ax item - ax3) (item_ay item - ay3) (item_bx item) (item_by item);
                       st2 = SQZ_scan_hilbert_stack_push st1
                               (item_x item) (item_y item) ax3 ay3 (item_bx item) (item_by item)
                   in SQZ_scan_hilbert ctx (hilbert\<lparr>hilbert_stack := st2, hilbert_index := - 1\<rparr>)
                 else
                   let adj = (c_mod h2 2 \<noteq> 0 \<and> hilbert_height hilbert > 2);
                       bx3 = (if adj then bx2 + hilbert_dbx hilbert else bx2);
                       by3 = (if adj then by2 + hilbert_dby hilbert else by2);
                       st1 = SQZ_scan_hilbert_stack_push below
                               (item_x item + (item_ax item - hilbert_dax hilbert) + (bx3 - hilbert_dbx hilbert))
                               (item_y item + (item_ay item - hilbert_day hilbert) + (by3 - hilbert_dby hilbert))
                               (- bx3) (- by3) (- (item_ax item - ax2)) (- (item_ay item - ay2));
                       st2 = SQZ_scan_hilbert_stack_push st1
                               (item_x item + bx3) (item_y item + by3)
                               (item_ax item) (item_ay item) (item_bx item - bx3) (item_by item - by3);
                       st3 = SQZ_scan_hilbert_stack_push st2
                               (item_x item) (item_y item) bx3 by3 ax2 ay2
                   in SQZ_scan_hilbert ctx (hilbert\<lparr>hilbert_stack := st3, hilbert_index := - 1\<rparr>))"

definition zero_hilbert :: SQZ_hilbert_scan_context_t where
  "zero_hilbert = \<lparr>hilbert_stack = [], hilbert_width = 0, hilbert_height = 0, hilbert_dax = 0,
                    hilbert_day = 0, hilbert_dbx = 0, hilbert_dby = 0, hilbert_index = 0\<rparr>"

definition SQZ_scan_init_hilbert_context ::
  "SQZ_scan_context_t \<Rightarrow> nat \<Rightarrow> nat \<Rightarrow> (SQZ_status_t \<times> SQZ_scan_context_t) option" where
  "SQZ_scan_init_hilbert_context ctx width height =
     (let st = (if width \<ge> height
                then SQZ_scan_hilbert_stack_push [] 0 0 (int width) 0 0 (int height)
                else SQZ_scan_hilbert_stack_push [] 0 0 0 (int height) (int width) 0);
          hilbert = zero_hilbert\<lparr>hilbert_stack := st, hilbert_index := - 1\<rparr>
      in case SQZ_scan_hilbert (ctx\<lparr>scan_type := SQZ_SCAN_ORDER_HILBERT\<rparr>) hilbert of
           None \<Rightarrow> None
         | Some (r, c1, h1) \<Rightarrow> Some (SQZ_RESULT_OK, c1\<lparr>scan_workspace := WS_hilbert h1\<rparr>))"

subsection \<open>Dispatch\<close>

definition SQZ_SCAN_SNAKE_DEFAULT_TILE_WIDTH :: nat where "SQZ_SCAN_SNAKE_DEFAULT_TILE_WIDTH = 4"
definition SQZ_SCAN_SNAKE_DEFAULT_TILE_HEIGHT :: nat where "SQZ_SCAN_SNAKE_DEFAULT_TILE_HEIGHT = 15"

definition SQZ_scan_init ::
  "SQZ_scan_context_t \<Rightarrow> SQZ_dwt_subband_t \<Rightarrow> (SQZ_status_t \<times> SQZ_scan_context_t) option" where
  "SQZ_scan_init ctx band =
     (if scan_type ctx = SQZ_SCAN_ORDER_RASTER
      then Some (SQZ_scan_init_raster_context ctx (band_width band) (band_height band))
      else if scan_type ctx = SQZ_SCAN_ORDER_SNAKE
      then SQZ_scan_init_snake_context ctx (band_width band) (band_height band)
             SQZ_SCAN_SNAKE_DEFAULT_TILE_WIDTH SQZ_SCAN_SNAKE_DEFAULT_TILE_HEIGHT
      else if scan_type ctx = SQZ_SCAN_ORDER_MORTON
      then Some (SQZ_scan_init_morton_context ctx (band_width band) (band_height band))
      else if scan_type ctx = SQZ_SCAN_ORDER_HILBERT
      then SQZ_scan_init_hilbert_context ctx (band_width band) (band_height band)
      else Some (SQZ_INVALID_PARAMETER, ctx))"

text \<open>
  The call through \<^verbatim>\<open>scan_ctx->scan\<close>.  The pointer is set by the initialisation of the
  scan order, together with the workspace it works on.
\<close>

definition SQZ_scan :: "SQZ_scan_context_t \<Rightarrow> (int \<times> SQZ_scan_context_t) option" where
  "SQZ_scan ctx =
     (case scan_workspace ctx of
        WS_NULL \<Rightarrow> (if scan_type ctx = SQZ_SCAN_ORDER_RASTER then Some (SQZ_scan_raster ctx) else None)
      | WS_snake snake \<Rightarrow>
          (case SQZ_scan_snake ctx snake of
             (r, c1, s1) \<Rightarrow> Some (r, c1\<lparr>scan_workspace := WS_snake s1\<rparr>))
      | WS_morton morton \<Rightarrow>
          (case SQZ_scan_morton ctx morton of
             (r, c1, m1) \<Rightarrow> Some (r, c1\<lparr>scan_workspace := WS_morton m1\<rparr>))
      | WS_hilbert hilbert \<Rightarrow>
          (case SQZ_scan_hilbert ctx hilbert of
             None \<Rightarrow> None
           | Some (r, c1, h1) \<Rightarrow> Some (r, c1\<lparr>scan_workspace := WS_hilbert h1\<rparr>)))"

section \<open>Subband initialisation\<close>

definition SQZ_dwt_get_max :: "int list \<Rightarrow> SQZ_dwt_subband_t \<Rightarrow> int" where
  "SQZ_dwt_get_max data band =
     foldl (\<lambda>mx y.
              foldl (\<lambda>mx x.
                       let v = data ! (band_data band + y * band_stride band + x)
                       in if v > mx then v else mx)
                    mx [0 ..< band_width band])
           (data ! band_data band) [0 ..< band_height band]"

text \<open>
  The loop of \<^verbatim>\<open>SQZ_common_init_subband\<close>: one node per scanned position.  It ends when the
  scan function returns 0.
\<close>

partial_function (option) init_subband_scan_loop ::
  "nat \<times> nat \<Rightarrow> (nat \<times> nat) list \<Rightarrow> SQZ_scan_context_t \<Rightarrow>
     ((nat \<times> nat) \<times> (nat \<times> nat) list \<times> SQZ_scan_context_t) option" where
  [code]: "init_subband_scan_loop cache lip scan_ctx =
     (case SQZ_list_add cache lip (scan_x scan_ctx mod 2 ^ 16) (scan_y scan_ctx mod 2 ^ 16) of
        (cache1, lip1) \<Rightarrow>
          (case SQZ_scan scan_ctx of
             None \<Rightarrow> None
           | Some (r, scan1) \<Rightarrow>
               if r \<noteq> 0 then init_subband_scan_loop cache1 lip1 scan1
               else Some (cache1, lip1, scan1)))"

definition SQZ_common_init_subband ::
  "SQZ_dwt_subband_t \<Rightarrow> SQZ_scan_context_t \<Rightarrow>
     (SQZ_status_t \<times> SQZ_dwt_subband_t \<times> SQZ_scan_context_t) option" where
  "SQZ_common_init_subband band scan_ctx =
     (case init_subband_scan_loop (band_width band * band_height band, 0) [] scan_ctx of
        None \<Rightarrow> None
      | Some ((capacity, index), lip, scan1) \<Rightarrow>
          Some (SQZ_RESULT_OK,
                band\<lparr>band_cache_capacity := capacity, band_cache_index := index,
                     band_LIP := lip, band_LSP := [], band_NSP := []\<rparr>,
                scan1))"

definition SQZ_encode_init_subband ::
  "int list \<Rightarrow> SQZ_dwt_subband_t \<Rightarrow> SQZ_scan_context_t \<Rightarrow> SQZ_bit_buffer_t \<Rightarrow>
     (SQZ_status_t \<times> SQZ_dwt_subband_t \<times> SQZ_scan_context_t \<times> SQZ_bit_buffer_t) option" where
  "SQZ_encode_init_subband data band scan_ctx buffer =
     (case SQZ_common_init_subband band scan_ctx of
        None \<Rightarrow> None
      | Some (result, b1, scan1) \<Rightarrow>
          if result \<noteq> SQZ_RESULT_OK then Some (result, b1, scan1, buffer)
          else
            let mb = s32 (SQZ_ilog2 (u32 (drop_bit 1 (SQZ_dwt_get_max data b1))));
                b2 = b1\<lparr>band_max_bitplane := mb, band_bitplane := mb\<rparr>
            in Some (SQZ_RESULT_OK, b2, scan1,
                     snd (SQZ_bit_buffer_write_bits buffer (u32 (band_max_bitplane b2)) 4)))"


section \<open>Colour transforms\<close>

definition SQZ_COLOR_8BPC_LEVEL_OFFSET :: int where "SQZ_COLOR_8BPC_LEVEL_OFFSET = 128"

definition SQZ_COLOR_CLIP :: "int \<Rightarrow> int" where
  "SQZ_COLOR_CLIP v = (if v < 0 then 0 else if v > 255 then 255 else u8 v)"

text \<open>
  Each transform works between the pixel buffer and the coefficient buffer of the context
  and returns both.  With \<open>read\<close> set the pixels are read and the coefficients written;
  otherwise the coefficients are read and the pixels written.
\<close>

definition SQZ_color_process_grayscale ::
  "SQZ_context_t \<Rightarrow> int list \<Rightarrow> bool \<Rightarrow> SQZ_context_t \<times> int list" where
  "SQZ_color_process_grayscale ctx buffer read =
     (let n = desc_width (ctx_image ctx) * desc_height (ctx_image ctx)
      in if read
         then (ctx\<lparr>ctx_data :=
                    foldl (\<lambda>data i. data[i := s16 (s16 (buffer ! i) - SQZ_COLOR_8BPC_LEVEL_OFFSET)])
                          (ctx_data ctx) [0 ..< n]\<rparr>,
               buffer)
         else (ctx,
               foldl (\<lambda>ptr i.
                        let v = s16 (ctx_data ctx ! i + SQZ_COLOR_8BPC_LEVEL_OFFSET)
                        in ptr[i := (if v < 0 then 0 else if v > 255 then 255 else u8 v)])
                     buffer [0 ..< n]))"

definition SQZ_color_process_ycocg_r ::
  "SQZ_context_t \<Rightarrow> int list \<Rightarrow> bool \<Rightarrow> SQZ_context_t \<times> int list" where
  "SQZ_color_process_ycocg_r ctx buffer read =
     (let n = desc_width (ctx_image ctx) * desc_height (ctx_image ctx);
          Y = ctx_plane_data ctx 0; Co = ctx_plane_data ctx 1; Cg = ctx_plane_data ctx 2
      in if read
         then (ctx\<lparr>ctx_data :=
                    foldl (\<lambda>data i.
                             let R = s16 (buffer ! (3 * i));
                                 G = s16 (buffer ! (3 * i + 1));
                                 B = s16 (buffer ! (3 * i + 2));
                                 t = s16 (drop_bit 1 (R + B));
                                 d1 = data[Y + i := s16 (drop_bit 1 (t + G) - SQZ_COLOR_8BPC_LEVEL_OFFSET)];
                                 d2 = d1[Co + i := s16 (R - B)]
                             in d2[Cg + i := s16 (G - t)])
                          (ctx_data ctx) [0 ..< n]\<rparr>,
               buffer)
         else (ctx,
               foldl (\<lambda>ptr i.
                        let Y1 = s16 (ctx_data ctx ! (Y + i) + SQZ_COLOR_8BPC_LEVEL_OFFSET);
                            Co1 = ctx_data ctx ! (Co + i);
                            Cg1 = ctx_data ctx ! (Cg + i);
                            B = s16 (Y1 + drop_bit 1 (1 - Cg1) - drop_bit 1 Co1);
                            G = s16 (Y1 - drop_bit 1 (- Cg1));
                            R = s16 (Co1 + B);
                            p1 = ptr[3 * i := SQZ_COLOR_CLIP R];
                            p2 = p1[3 * i + 1 := SQZ_COLOR_CLIP G]
                        in p2[3 * i + 2 := SQZ_COLOR_CLIP B])
                     buffer [0 ..< n]))"

definition SQZ_COLOR_LINEAR_PRECISION :: nat where "SQZ_COLOR_LINEAR_PRECISION = 16"
definition SQZ_COLOR_LINEAR_MAX :: int where "SQZ_COLOR_LINEAR_MAX = 2 ^ 16 - 1"
definition SQZ_COLOR_LINEAR_TO_SRGB_LUT_SIZE :: int where "SQZ_COLOR_LINEAR_TO_SRGB_LUT_SIZE = 2 ^ 9 - 1"

definition SQZ_sRGB_to_linear :: "int list" where
  "SQZ_sRGB_to_linear =
     [
      0, 20, 40, 60, 80, 99, 119, 139, 159, 179, 199, 219,
      241, 264, 288, 313, 340, 367, 396, 427, 458, 491, 526, 562,
      599, 637, 677, 718, 761, 805, 851, 898, 947, 997, 1048, 1101,
      1156, 1212, 1270, 1330, 1391, 1453, 1517, 1583, 1651, 1720, 1790, 1863,
      1937, 2013, 2090, 2170, 2250, 2333, 2418, 2504, 2592, 2681, 2773, 2866,
      2961, 3058, 3157, 3258, 3360, 3464, 3570, 3678, 3788, 3900, 4014, 4129,
      4247, 4366, 4488, 4611, 4736, 4864, 4993, 5124, 5257, 5392, 5530, 5669,
      5810, 5953, 6099, 6246, 6395, 6547, 6700, 6856, 7014, 7174, 7335, 7500,
      7666, 7834, 8004, 8177, 8352, 8528, 8708, 8889, 9072, 9258, 9445, 9635,
      9828, 10022, 10219, 10417, 10619, 10822, 11028, 11235, 11446, 11658, 11873, 12090,
      12309, 12530, 12754, 12980, 13209, 13440, 13673, 13909, 14146, 14387, 14629, 14874,
      15122, 15371, 15623, 15878, 16135, 16394, 16656, 16920, 17187, 17456, 17727, 18001,
      18277, 18556, 18837, 19121, 19407, 19696, 19987, 20281, 20577, 20876, 21177, 21481,
      21787, 22096, 22407, 22721, 23038, 23357, 23678, 24002, 24329, 24658, 24990, 25325,
      25662, 26001, 26344, 26688, 27036, 27386, 27739, 28094, 28452, 28813, 29176, 29542,
      29911, 30282, 30656, 31033, 31412, 31794, 32179, 32567, 32957, 33350, 33745, 34143,
      34544, 34948, 35355, 35764, 36176, 36591, 37008, 37429, 37852, 38278, 38706, 39138,
      39572, 40009, 40449, 40891, 41337, 41785, 42236, 42690, 43147, 43606, 44069, 44534,
      45002, 45473, 45947, 46423, 46903, 47385, 47871, 48359, 48850, 49344, 49841, 50341,
      50844, 51349, 51858, 52369, 52884, 53401, 53921, 54445, 54971, 55500, 56032, 56567,
      57105, 57646, 58190, 58737, 59287, 59840, 60396, 60955, 61517, 62082, 62650, 63221,
      63795, 64372, 64952, 65535]"

definition SQZ_linear_to_sRGB :: "int list" where
  "SQZ_linear_to_sRGB =
     [
      0, 6, 13, 18, 22, 25, 28, 31, 34, 36, 38, 40, 42, 44, 46, 48,
      50, 51, 53, 54, 56, 57, 59, 60, 61, 62, 64, 65, 66, 67, 69, 70,
      71, 72, 73, 74, 75, 76, 77, 78, 79, 80, 81, 82, 83, 84, 85, 86,
      86, 87, 88, 89, 90, 91, 91, 92, 93, 94, 95, 95, 96, 97, 98, 98,
      99, 100, 101, 101, 102, 103, 103, 104, 105, 106, 106, 107, 108, 108, 109, 110,
      110, 111, 111, 112, 113, 113, 114, 115, 115, 116, 116, 117, 118, 118, 119, 119,
      120, 121, 121, 122, 122, 123, 123, 124, 125, 125, 126, 126, 127, 127, 128, 128,
      129, 129, 130, 130, 131, 132, 132, 133, 133, 134, 134, 135, 135, 136, 136, 137,
      137, 138, 138, 139, 139, 140, 140, 140, 141, 141, 142, 142, 143, 143, 144, 144,
      145, 145, 146, 146, 147, 147, 147, 148, 148, 149, 149, 150, 150, 151, 151, 151,
      152, 152, 153, 153, 154, 154, 154, 155, 155, 156, 156, 156, 157, 157, 158, 158,
      159, 159, 159, 160, 160, 161, 161, 161, 162, 162, 163, 163, 163, 164, 164, 165,
      165, 165, 166, 166, 166, 167, 167, 168, 168, 168, 169, 169, 169, 170, 170, 171,
      171, 171, 172, 172, 172, 173, 173, 174, 174, 174, 175, 175, 175, 176, 176, 176,
      177, 177, 177, 178, 178, 179, 179, 179, 180, 180, 180, 181, 181, 181, 182, 182,
      182, 183, 183, 183, 184, 184, 184, 185, 185, 185, 186, 186, 186, 187, 187, 187,
      188, 188, 188, 189, 189, 189, 190, 190, 190, 191, 191, 191, 192, 192, 192, 193,
      193, 193, 193, 194, 194, 194, 195, 195, 195, 196, 196, 196, 197, 197, 197, 198,
      198, 198, 198, 199, 199, 199, 200, 200, 200, 201, 201, 201, 201, 202, 202, 202,
      203, 203, 203, 204, 204, 204, 204, 205, 205, 205, 206, 206, 206, 206, 207, 207,
      207, 208, 208, 208, 208, 209, 209, 209, 210, 210, 210, 210, 211, 211, 211, 212,
      212, 212, 212, 213, 213, 213, 214, 214, 214, 214, 215, 215, 215, 215, 216, 216,
      216, 217, 217, 217, 217, 218, 218, 218, 218, 219, 219, 219, 220, 220, 220, 220,
      221, 221, 221, 221, 222, 222, 222, 222, 223, 223, 223, 224, 224, 224, 224, 225,
      225, 225, 225, 226, 226, 226, 226, 227, 227, 227, 227, 228, 228, 228, 228, 229,
      229, 229, 229, 230, 230, 230, 230, 231, 231, 231, 231, 232, 232, 232, 232, 233,
      233, 233, 233, 234, 234, 234, 234, 235, 235, 235, 235, 236, 236, 236, 236, 237,
      237, 237, 237, 238, 238, 238, 238, 239, 239, 239, 239, 239, 240, 240, 240, 240,
      241, 241, 241, 241, 242, 242, 242, 242, 243, 243, 243, 243, 243, 244, 244, 244,
      244, 245, 245, 245, 245, 246, 246, 246, 246, 246, 247, 247, 247, 247, 248, 248,
      248, 248, 249, 249, 249, 249, 249, 250, 250, 250, 250, 251, 251, 251, 251, 251,
      252, 252, 252, 252, 253, 253, 253, 253, 253, 254, 254, 254, 254, 255, 255, 255]"

definition SQZ_linear_i32_to_sRGB_u8 :: "int \<Rightarrow> int" where
  "SQZ_linear_i32_to_sRGB_u8 v =
     (if v \<le> 0 then 0
      else if v \<ge> SQZ_COLOR_LINEAR_MAX then 255
      else
        let vmul = s32 (v * SQZ_COLOR_LINEAR_TO_SRGB_LUT_SIZE);
            offset = drop_bit SQZ_COLOR_LINEAR_PRECISION vmul;
            interpoland = vmul AND SQZ_COLOR_LINEAR_MAX;
            base = SQZ_linear_to_sRGB ! nat offset
        in u8 (base + drop_bit SQZ_COLOR_LINEAR_PRECISION
                        (s32 (interpoland * (SQZ_linear_to_sRGB ! nat (offset + 1) - base)))))"

text \<open>The cube root works in 64 bits; its operands stay far below that width.\<close>

definition SQZ_i32_cbrt_01_step :: "int \<Rightarrow> int \<Rightarrow> int" where
  "SQZ_i32_cbrt_01_step v rt =
     (let n = rt * rt * rt;
          denominator = v + drop_bit (SQZ_COLOR_LINEAR_PRECISION * 2 - 1) n
      in c_div (rt * (2 * v + drop_bit (SQZ_COLOR_LINEAR_PRECISION * 2) n)) denominator)"

definition SQZ_i32_cbrt_01 :: "int \<Rightarrow> int" where
  "SQZ_i32_cbrt_01 v =
     (if v \<le> 0 then 0
      else if v \<ge> SQZ_COLOR_LINEAR_MAX then SQZ_COLOR_LINEAR_MAX
      else
        let root0 = drop_bit SQZ_COLOR_LINEAR_PRECISION
                      (v * (drop_bit SQZ_COLOR_LINEAR_PRECISION (v * (v - 144107)) + 132114)) + 14379
        in s32 (SQZ_i32_cbrt_01_step v (SQZ_i32_cbrt_01_step v root0)))"

definition SQZ_COLOR_OKLAB_PRECISION :: nat where "SQZ_COLOR_OKLAB_PRECISION = 12"
definition SQZ_COLOR_OKLAB_MUL :: int where "SQZ_COLOR_OKLAB_MUL = 2 ^ (16 - 12)"
definition SQZ_COLOR_OKLAB_LEVEL_OFFSET :: int where "SQZ_COLOR_OKLAB_LEVEL_OFFSET = 2 ^ (12 - 1)"

definition SQZ_color_process_oklab ::
  "SQZ_context_t \<Rightarrow> int list \<Rightarrow> bool \<Rightarrow> SQZ_context_t \<times> int list" where
  "SQZ_color_process_oklab ctx buffer read =
     (let n = desc_width (ctx_image ctx) * desc_height (ctx_image ctx);
          L = ctx_plane_data ctx 0; a = ctx_plane_data ctx 1; b = ctx_plane_data ctx 2
      in if read
         then (ctx\<lparr>ctx_data :=
                    foldl (\<lambda>data i.
                             let R = SQZ_sRGB_to_linear ! nat (buffer ! (3 * i));
                                 G = SQZ_sRGB_to_linear ! nat (buffer ! (3 * i + 1));
                                 B = SQZ_sRGB_to_linear ! nat (buffer ! (3 * i + 2));
                                 l = SQZ_i32_cbrt_01 (s32 (drop_bit SQZ_COLOR_LINEAR_PRECISION
                                                       (27015 * R + 35149 * G + 3372 * B)));
                                 m = SQZ_i32_cbrt_01 (s32 (drop_bit SQZ_COLOR_LINEAR_PRECISION
                                                       (13887 * R + 44610 * G + 7038 * B)));
                                 s = SQZ_i32_cbrt_01 (s32 (drop_bit SQZ_COLOR_LINEAR_PRECISION
                                                       (5787 * R + 18462 * G + 41286 * B)));
                                 d1 = data[L + i :=
                                        s16 (drop_bit SQZ_COLOR_LINEAR_PRECISION
                                               (862 * l + 3250 * m - 17 * s + SQZ_COLOR_LINEAR_MAX div 2)
                                             - SQZ_COLOR_OKLAB_LEVEL_OFFSET)];
                                 d2 = d1[a + i :=
                                        s16 (drop_bit SQZ_COLOR_LINEAR_PRECISION
                                               (8100 * l - 9945 * m + 1845 * s + SQZ_COLOR_LINEAR_MAX div 2))]
                             in d2[b + i :=
                                        s16 (drop_bit SQZ_COLOR_LINEAR_PRECISION
                                               (106 * l + 3205 * m - 3311 * s + SQZ_COLOR_LINEAR_MAX div 2))])
                          (ctx_data ctx) [0 ..< n]\<rparr>,
               buffer)
         else (ctx,
               foldl (\<lambda>ptr i.
                        let L1 = s16 (ctx_data ctx ! (L + i) + SQZ_COLOR_OKLAB_LEVEL_OFFSET);
                            a1 = ctx_data ctx ! (a + i);
                            b1 = ctx_data ctx ! (b + i);
                            l1 = L1 * SQZ_COLOR_OKLAB_MUL
                                   + drop_bit SQZ_COLOR_OKLAB_PRECISION (25974 * a1 + 14143 * b1);
                            m1 = L1 * SQZ_COLOR_OKLAB_MUL
                                   + drop_bit SQZ_COLOR_OKLAB_PRECISION (- 6918 * a1 - 4185 * b1);
                            s1 = L1 * SQZ_COLOR_OKLAB_MUL
                                   + drop_bit SQZ_COLOR_OKLAB_PRECISION (- 5864 * a1 - 84638 * b1);
                            l = drop_bit (SQZ_COLOR_LINEAR_PRECISION * 2) (l1 * l1 * l1);
                            m = drop_bit (SQZ_COLOR_LINEAR_PRECISION * 2) (m1 * m1 * m1);
                            s = drop_bit (SQZ_COLOR_LINEAR_PRECISION * 2) (s1 * s1 * s1);
                            p1 = ptr[3 * i := SQZ_linear_i32_to_sRGB_u8
                                   (s32 (drop_bit SQZ_COLOR_LINEAR_PRECISION
                                           (267169 * l - 216771 * m + 15137 * s)))];
                            p2 = p1[3 * i + 1 := SQZ_linear_i32_to_sRGB_u8
                                   (s32 (drop_bit SQZ_COLOR_LINEAR_PRECISION
                                           (- 83127 * l + 171030 * m - 22368 * s)))]
                        in p2[3 * i + 2 := SQZ_linear_i32_to_sRGB_u8
                                   (s32 (drop_bit SQZ_COLOR_LINEAR_PRECISION
                                           (- 275 * l - 46099 * m + 111909 * s)))])
                     buffer [0 ..< n]))"

definition SQZ_COLOR_LOGL1_LEVEL_OFFSET :: int where "SQZ_COLOR_LOGL1_LEVEL_OFFSET = 221"

definition SQZ_color_process_logl1 ::
  "SQZ_context_t \<Rightarrow> int list \<Rightarrow> bool \<Rightarrow> SQZ_context_t \<times> int list" where
  "SQZ_color_process_logl1 ctx buffer read =
     (let n = desc_width (ctx_image ctx) * desc_height (ctx_image ctx);
          Y = ctx_plane_data ctx 0; c0 = ctx_plane_data ctx 1; c1 = ctx_plane_data ctx 2
      in if read
         then (ctx\<lparr>ctx_data :=
                    foldl (\<lambda>data i.
                             let R = s16 (buffer ! (3 * i));
                                 G = s16 (buffer ! (3 * i + 1));
                                 B = s16 (buffer ! (3 * i + 2));
                                 d1 = data[Y + i := s16 (drop_bit 16 (33779 * R + 41184 * G + 38182 * B)
                                                           - SQZ_COLOR_LOGL1_LEVEL_OFFSET)];
                                 d2 = d1[c0 + i := s16 (drop_bit 16 (- 52830 * R + 8188 * G + 37906 * B))]
                             in d2[c1 + i := s16 (drop_bit 16 (19051 * R - 50317 * G + 37420 * B))])
                          (ctx_data ctx) [0 ..< n]\<rparr>,
               buffer)
         else (ctx,
               foldl (\<lambda>ptr i.
                        let Y1 = s16 (ctx_data ctx ! (Y + i) + SQZ_COLOR_LOGL1_LEVEL_OFFSET);
                            c01 = ctx_data ctx ! (c0 + i);
                            c11 = ctx_data ctx ! (c1 + i);
                            R = s16 (drop_bit 16 (s32 (33779 * Y1 - 52830 * c01 + 19051 * c11)));
                            G = s16 (drop_bit 16 (s32 (41184 * Y1 + 8188 * c01 - 50317 * c11)));
                            B = s16 (drop_bit 16 (s32 (38182 * Y1 + 37906 * c01 + 37420 * c11)));
                            p1 = ptr[3 * i := SQZ_COLOR_CLIP R];
                            p2 = p1[3 * i + 1 := SQZ_COLOR_CLIP G]
                        in p2[3 * i + 2 := SQZ_COLOR_CLIP B])
                     buffer [0 ..< n]))"

definition SQZ_color_process ::
  "SQZ_context_t \<Rightarrow> int list \<Rightarrow> bool \<Rightarrow> SQZ_context_t \<times> int list" where
  "SQZ_color_process ctx buffer read =
     (if desc_color_mode (ctx_image ctx) = SQZ_COLOR_MODE_GRAYSCALE
      then SQZ_color_process_grayscale ctx buffer read
      else if desc_color_mode (ctx_image ctx) = SQZ_COLOR_MODE_YCOCG_R
      then SQZ_color_process_ycocg_r ctx buffer read
      else if desc_color_mode (ctx_image ctx) = SQZ_COLOR_MODE_OKLAB
      then SQZ_color_process_oklab ctx buffer read
      else if desc_color_mode (ctx_image ctx) = SQZ_COLOR_MODE_LOG_L1
      then SQZ_color_process_logl1 ctx buffer read
      else (ctx, buffer))"

section \<open>Sign-magnitude form\<close>

definition SQZ_dwt_convert_to_sign_magnitude :: "SQZ_context_t \<Rightarrow> SQZ_context_t" where
  "SQZ_dwt_convert_to_sign_magnitude ctx =
     (let im = ctx_image ctx; size = desc_width im * desc_height im * desc_num_planes im
      in ctx\<lparr>ctx_data :=
             foldl (\<lambda>data i. data[i := s16 (if data ! i < 0 then (- 2 * (data ! i)) OR 1
                                               else 2 * (data ! i))])
                   (ctx_data ctx) [0 ..< size]\<rparr>)"


section \<open>The 5/3 integer wavelet transform\<close>

text \<open>
  The lifting steps compute in 32 bits on values that are stored as 16-bit coefficients;
  the store is written as \<open>s16\<close>.  A row is addressed by the offset of its first
  coefficient in the coefficient buffer.  In a horizontal pass \<open>evens\<close> starts at
  offset \<open>0\<close> of the scratch row and \<open>odds\<close> at offset \<open>stride\<close>.
\<close>

function dwt_horizontal_loop ::
  "int list \<Rightarrow> nat \<Rightarrow> nat \<Rightarrow> nat \<Rightarrow> nat \<Rightarrow> nat \<Rightarrow> int list \<times> int \<times> int \<times> int \<times> int
     \<Rightarrow> int list \<times> int \<times> int \<times> int \<times> int" where
  "dwt_horizontal_loop scratch l_band h_band odds w i st =
     (case st of (data, cf0, cf1, cf2, cf3) \<Rightarrow>
        if i < w
        then
          let cf3a = scratch ! (odds + i);
              cf0a = scratch ! (i + 1);
              cf3b = cf3a + drop_bit 1 (- (cf2 + cf0a));
              d1 = data[h_band + i := s16 cf3b];
              cf2a = cf2 + drop_bit 2 (cf1 + cf3b + 2);
              d2 = d1[l_band + i := s16 cf2a];
              j = i + 1;
              cf1a = scratch ! (odds + j);
              cf2b = scratch ! (j + 1);
              cf1b = cf1a + drop_bit 1 (- (cf2b + cf0a));
              d3 = d2[h_band + j := s16 cf1b];
              cf0b = cf0a + drop_bit 2 (cf1b + cf3b + 2);
              d4 = d3[l_band + j := s16 cf0b]
          in dwt_horizontal_loop scratch l_band h_band odds w (j + 1) (d4, cf0b, cf1b, cf2b, cf3b)
        else st)"
  by pat_completeness auto
termination
  by (relation "measure (\<lambda>(scratch, l_band, h_band, odds, w, i, st). w - i)") auto

declare dwt_horizontal_loop.simps [simp del]

definition SQZ_dwt_5_3i_horizontal_pass ::
  "int list \<Rightarrow> nat \<Rightarrow> int list \<Rightarrow> nat \<Rightarrow> int list \<times> int list" where
  "SQZ_dwt_5_3i_horizontal_pass data0 row scratch0 width =
     (if width < drop_bit 1 SQZ_MIN_DIMENSION then (data0, scratch0)
      else
        let half_w = drop_bit 1 width;
            odd_w = (width AND 1 \<noteq> 0);
            stride = (if odd_w then half_w + 1 else half_w);
            w = half_w - 1;
            odds = stride;
            l_band = row;
            h_band = row + stride;
            s1 = foldl (\<lambda>s i. (s[i := data0 ! (row + 2 * i)])[odds + i := data0 ! (row + 2 * i + 1)])
                       scratch0 [0 ..< half_w];
            scratch = (if odd_w then s1[half_w := data0 ! (row + 2 * half_w)] else s1);
            cf0 = scratch ! 0;
            cf2 = scratch ! 1;
            cf1 = scratch ! odds + drop_bit 1 (- (cf0 + cf2));
            d1 = data0[h_band := s16 cf1];
            cf0a = cf0 + drop_bit 1 (cf1 + 1);
            d2 = d1[l_band := s16 cf0a]
        in case dwt_horizontal_loop scratch l_band h_band odds w 1 (d2, cf0a, cf1, cf2, 0) of
             (d3, c0, c1, c2, c3) \<Rightarrow>
               let cf3 = scratch ! (odds + w)
                           + (if odd_w then drop_bit 1 (- (scratch ! w + scratch ! (w + 1)))
                              else - (scratch ! w));
                   d4 = d3[h_band + w := s16 cf3];
                   d5 = d4[l_band + w := s16 (scratch ! w + drop_bit 2 (d4 ! (h_band + w - 1) + cf3 + 2))];
                   d6 = (if odd_w then d5[l_band + w + 1 := s16 (scratch ! (w + 1) + drop_bit 1 (cf3 + 1))]
                         else d5)
               in (d6, scratch))"

function dwt_vertical_loop ::
  "nat \<Rightarrow> nat \<Rightarrow> nat \<Rightarrow> nat \<Rightarrow> int \<Rightarrow> nat \<Rightarrow> nat \<Rightarrow> int list \<times> int list
     \<Rightarrow> (int list \<times> int list) option" where
  "dwt_vertical_loop base width height stride i nnn nn st =
     (if i < s32 (int height)
      then
        case SQZ_mirror (i + 1) (s32 (int height - 1)) of
          None \<Rightarrow> None
        | Some mn \<Rightarrow>
           (case SQZ_mirror (i + 2) (s32 (int height - 1)) of
              None \<Rightarrow> None
            | Some mr \<Rightarrow>
               let n = base + nat mn * stride;
                   r = base + nat mr * stride;
                   st1 = (if nn \<le> r then SQZ_dwt_5_3i_horizontal_pass (fst st) n (snd st) width else st);
                   st2 = (if i + 2 < s32 (int height)
                          then SQZ_dwt_5_3i_horizontal_pass (fst st1) r (snd st1) width else st1);
                   d3 = (if nn \<le> r
                         then foldl (\<lambda>d k. d[n + k := s16 (d ! (n + k) - drop_bit 1 (d ! (nn + k) + d ! (r + k)))])
                                    (fst st2) [0 ..< width]
                         else fst st2);
                   d4 = (if nnn \<le> n
                         then foldl (\<lambda>d k. d[nn + k := s16 (d ! (nn + k) + drop_bit 2 (d ! (nnn + k) + d ! (n + k) + 2))])
                                    d3 [0 ..< width]
                         else d3)
               in dwt_vertical_loop base width height stride (i + 2) n r (d4, snd st2))
      else Some st)"
  by pat_completeness auto
termination
  by (relation "measure (\<lambda>(base, width, height, stride, i, nnn, nn, st). nat (s32 (int height) - i))")
     auto

declare dwt_vertical_loop.simps [simp del]

definition SQZ_dwt_5_3i ::
  "int list \<Rightarrow> nat \<Rightarrow> int list \<Rightarrow> nat \<Rightarrow> nat \<Rightarrow> nat \<Rightarrow> (int list \<times> int list) option" where
  "SQZ_dwt_5_3i data base scratch width height stride =
     (case SQZ_mirror (- 3) (s32 (int height - 1)) of
        None \<Rightarrow> None
      | Some m3 \<Rightarrow>
         (case SQZ_mirror (- 2) (s32 (int height - 1)) of
            None \<Rightarrow> None
          | Some m2 \<Rightarrow>
             dwt_vertical_loop base width height stride (- 2)
               (base + nat m3 * stride) (base + nat m2 * stride) (data, scratch)))"

text \<open>
  \<^verbatim>\<open>SQZ_dwt\<close>: every plane is decomposed \<open>dwt_levels\<close> times, each level working on the
  low-pass quadrant of the previous one.  The scratch row is allocated once; the allocation
  is assumed to succeed.
\<close>

definition dwt_level_step ::
  "nat \<Rightarrow> nat \<Rightarrow> (int list \<times> int list \<times> nat \<times> nat) option \<Rightarrow> nat
     \<Rightarrow> (int list \<times> int list \<times> nat \<times> nat) option" where
  "dwt_level_step base stride acc level =
     (case acc of
        None \<Rightarrow> None
      | Some (data, scratch, width, height) \<Rightarrow>
         (case SQZ_dwt_5_3i data base scratch width height (push_bit level stride) of
            None \<Rightarrow> None
          | Some (d1, s1) \<Rightarrow> Some (d1, s1, drop_bit 1 (width + 1), drop_bit 1 (height + 1))))"

definition dwt_plane_step ::
  "SQZ_context_t \<Rightarrow> (int list \<times> int list) option \<Rightarrow> nat \<Rightarrow> (int list \<times> int list) option" where
  "dwt_plane_step ctx acc plane =
     (case acc of
        None \<Rightarrow> None
      | Some (data, scratch) \<Rightarrow>
         (case foldl (dwt_level_step (ctx_plane_data ctx plane) (desc_width (ctx_image ctx)))
                     (Some (data, scratch, desc_width (ctx_image ctx), desc_height (ctx_image ctx)))
                     [0 ..< desc_dwt_levels (ctx_image ctx)] of
            None \<Rightarrow> None
          | Some (d1, s1, w, h) \<Rightarrow> Some (d1, s1)))"

definition SQZ_dwt :: "SQZ_context_t \<Rightarrow> (SQZ_status_t \<times> SQZ_context_t) option" where
  "SQZ_dwt ctx =
     (case foldl (dwt_plane_step ctx)
                 (Some (ctx_data ctx, replicate (desc_width (ctx_image ctx)) 0))
                 [0 ..< desc_num_planes (ctx_image ctx)] of
        None \<Rightarrow> None
      | Some (data, scratch) \<Rightarrow> Some (SQZ_RESULT_OK, ctx\<lparr>ctx_data := data\<rparr>))"










section \<open>Header\<close>

definition SQZ_encode_header :: "SQZ_image_descriptor_t \<Rightarrow> SQZ_bit_buffer_t \<Rightarrow> int \<times> SQZ_bit_buffer_t" where
  "SQZ_encode_header descriptor buffer =
     (let b1 = snd (SQZ_bit_buffer_write_bits buffer (u32 SQZ_HEADER_MAGIC) 8);
          b2 = snd (SQZ_bit_buffer_write_bits b1 (u32 (int (desc_width descriptor) - 1)) 16);
          b3 = snd (SQZ_bit_buffer_write_bits b2 (u32 (int (desc_height descriptor) - 1)) 16);
          b4 = snd (SQZ_bit_buffer_write_bits b3 (u32 (desc_color_mode descriptor)) 2);
          b5 = snd (SQZ_bit_buffer_write_bits b4 (u32 (int (desc_dwt_levels descriptor) - 1)) 3);
          b6 = snd (SQZ_bit_buffer_write_bits b5 (u32 (desc_scan_order descriptor)) 2);
          b7 = snd (SQZ_bit_buffer_write_bit b6 (c_bool (desc_subsampling descriptor \<noteq> 0)))
      in (c_bool (\<not> SQZ_bit_buffer_eob b7), b7))"


section \<open>Run lengths\<close>

definition SQZ_encode_write_wdr_run :: "SQZ_bit_buffer_t \<Rightarrow> int \<Rightarrow> int \<times> SQZ_bit_buffer_t" where
  "SQZ_encode_write_wdr_run buffer run =
     (let cost = u32 (SQZ_ilog2 run - 1)
      in if cost \<le> 16
         then SQZ_bit_buffer_write_bits buffer (SQZ_interleave_u16_to_u32 run) (nat (u32 (cost * 2)))
         else
           case SQZ_bit_buffer_write_bits buffer (SQZ_interleave_u16_to_u32 (drop_bit 16 run))
                  (nat (u32 (u32 (cost - 16) * 2))) of
             (r1, b1) \<Rightarrow>
               if r1 = 0 then (0, b1)
               else case SQZ_bit_buffer_write_bits b1 (SQZ_interleave_u16_to_u32 run) 32 of
                      (r2, b2) \<Rightarrow> (c_bool (r2 \<noteq> 0), b2))"





section \<open>Bitplane passes\<close>

text \<open>
  The traversal of the LIP keeps the nodes already passed (\<open>kept\<close>) and the nodes from the
  current one on; the LIP after the pass is \<open>kept\<close> followed by what was not reached.
  \<open>base\<close> and \<open>stride\<close> are \<^verbatim>\<open>band->data\<close> and \<^verbatim>\<open>band->stride\<close>.
\<close>

definition bitplane_mask :: "int \<Rightarrow> int" where
  "bitplane_mask bitplane = s16 (u32 (push_bit (nat bitplane) 1))"

fun encode_sorting_loop ::
  "int list \<Rightarrow> nat \<Rightarrow> nat \<Rightarrow> int \<Rightarrow> (nat \<times> nat) list \<Rightarrow> (nat \<times> nat) list \<Rightarrow> (nat \<times> nat) list
     \<Rightarrow> int \<Rightarrow> int \<Rightarrow> SQZ_bit_buffer_t
     \<Rightarrow> (nat \<times> nat) list \<times> (nat \<times> nat) list \<times> int \<times> int \<times> SQZ_bit_buffer_t" where
  "encode_sorting_loop data base stride bmask [] kept nsp i last_i buffer = (kept, nsp, i, last_i, buffer)"
| "encode_sorting_loop data base stride bmask (pixel # rest) kept nsp i last_i buffer =
     (let v = data ! (base + snd pixel * stride + fst pixel)
      in if v AND bmask \<noteq> 0
         then
           case SQZ_bit_buffer_write_bits buffer (u32 (2 OR (v AND 1))) (1 + nat (c_bool (last_i \<noteq> 0))) of
             (r1, b1) \<Rightarrow>
               if r1 = 0 then (kept @ pixel # rest, nsp, i, last_i, b1)
               else
                 case SQZ_encode_write_wdr_run b1 (u32 (i - last_i)) of
                   (r2, b2) \<Rightarrow>
                     if r2 = 0 then (kept @ pixel # rest, nsp, i, last_i, b2)
                     else encode_sorting_loop data base stride bmask rest kept (nsp @ [pixel])
                            (u32 (i + 1)) i b2
         else encode_sorting_loop data base stride bmask rest (kept @ [pixel]) nsp (u32 (i + 1)) last_i buffer)"

definition SQZ_encode_sorting_pass ::
  "int list \<Rightarrow> SQZ_dwt_subband_t \<Rightarrow> SQZ_bit_buffer_t \<Rightarrow> int \<times> SQZ_dwt_subband_t \<times> SQZ_bit_buffer_t" where
  "SQZ_encode_sorting_pass data band buffer =
     (if length (band_LIP band) = 0 \<or> band_bitplane band \<le> 0 then (1, band, buffer)
      else
        case encode_sorting_loop data (band_data band) (band_stride band)
               (bitplane_mask (band_bitplane band)) (band_LIP band) [] (band_NSP band) 1 0 buffer of
          (lip, nsp, i, last_i, b1) \<Rightarrow>
            let b2 = snd (SQZ_bit_buffer_write_bits b1 3 (1 + nat (c_bool (length nsp > 0))));
                b3 = snd (SQZ_encode_write_wdr_run b2 (u32 (i - last_i)));
                b4 = snd (SQZ_bit_buffer_write_bit b3 1)
            in (c_bool (\<not> SQZ_bit_buffer_eob b4), band\<lparr>band_LIP := lip, band_NSP := nsp\<rparr>, b4))"




fun encode_refinement_loop ::
  "int list \<Rightarrow> nat \<Rightarrow> nat \<Rightarrow> int \<Rightarrow> (nat \<times> nat) list \<Rightarrow> SQZ_bit_buffer_t \<Rightarrow> SQZ_bit_buffer_t" where
  "encode_refinement_loop data base stride bmask [] buffer = buffer"
| "encode_refinement_loop data base stride bmask (pixel # rest) buffer =
     (let v = data ! (base + snd pixel * stride + fst pixel)
      in case SQZ_bit_buffer_write_bit buffer (c_bool (v AND bmask \<noteq> 0)) of
           (r, b1) \<Rightarrow> if r = 0 then b1 else encode_refinement_loop data base stride bmask rest b1)"

definition SQZ_encode_refinement_pass ::
  "int list \<Rightarrow> SQZ_dwt_subband_t \<Rightarrow> SQZ_bit_buffer_t \<Rightarrow> int \<times> SQZ_bit_buffer_t" where
  "SQZ_encode_refinement_pass data band buffer =
     (let b1 = encode_refinement_loop data (band_data band) (band_stride band)
                 (bitplane_mask (band_bitplane band)) (band_LSP band) buffer
      in (c_bool (\<not> SQZ_bit_buffer_eob b1), b1))"



text \<open>
  The two bitplane tasks have the type of the scheduler's \<^verbatim>\<open>task\<close> argument: they take the
  coefficient buffer, the subband and the bit buffer, and return all three with the result.
\<close>

definition finish_bitplane :: "SQZ_dwt_subband_t \<Rightarrow> SQZ_dwt_subband_t" where
  "finish_bitplane band =
     (case SQZ_list_merge (band_NSP band) (band_LSP band) of
        (nsp, lsp) \<Rightarrow>
          band\<lparr>band_NSP := nsp, band_LSP := lsp,
               band_bitplane := band_bitplane band - c_bool (band_bitplane band > 0)\<rparr>)"

definition SQZ_encode_bitplane ::
  "int list \<Rightarrow> SQZ_dwt_subband_t \<Rightarrow> SQZ_bit_buffer_t
     \<Rightarrow> int \<times> int list \<times> SQZ_dwt_subband_t \<times> SQZ_bit_buffer_t" where
  "SQZ_encode_bitplane data band buffer =
     (case SQZ_encode_sorting_pass data band buffer of
        (r1, band1, b1) \<Rightarrow>
          if r1 = 0 then (0, data, band1, b1)
          else
            case SQZ_encode_refinement_pass data band1 b1 of
              (r2, b2) \<Rightarrow>
                if r2 = 0 then (0, data, band1, b2)
                else (c_bool (\<not> SQZ_bit_buffer_eob b2), data, finish_bitplane band1, b2))"




section \<open>Scheduler\<close>

text \<open>
  The position of the scheduler is \<open>(state, plane, level, orientation)\<close>.
  \<open>schedule_advance\<close> is the tail of the body of the inner loop: it moves to the next
  subband and tells whether the loop is left (\<^verbatim>\<open>break\<close>).
\<close>

definition schedule_next_level :: "SQZ_image_descriptor_t \<Rightarrow> nat \<Rightarrow> nat \<times> nat" where
  "schedule_next_level im level =
     (level + 1, nat (c_bool (level + 1 < desc_dwt_levels im)))"

definition schedule_advance ::
  "SQZ_image_descriptor_t \<Rightarrow> nat \<times> nat \<times> nat \<times> nat \<Rightarrow> (nat \<times> nat \<times> nat \<times> nat) \<times> bool" where
  "schedule_advance im pos =
     (case pos of (state, plane, level, orientation) \<Rightarrow>
        if state = 0
        then
          if orientation + 1 \<ge> SQZ_DWT_SUBBANDS
          then
            case schedule_next_level im level of
              (level1, orientation1) \<Rightarrow>
                if orientation1 = 0
                then
                  let s = nat (c_bool (desc_num_planes im > 1))
                  in ((s, s, 0, orientation1), s = 0)
                else ((state, plane, level1, orientation1), False)
          else ((state, plane, level, orientation + 1), False)
        else
          if plane + 1 \<ge> desc_num_planes im
          then
            if orientation + 1 \<ge> SQZ_DWT_SUBBANDS
            then
              case schedule_next_level im level of
                (level1, orientation1) \<Rightarrow>
                  if orientation1 = 0 then ((0, 0, 0, orientation1), True)
                  else ((state, 1, level1, orientation1), False)
            else ((state, 1, level, orientation + 1), False)
          else ((state, plane + 1, level, orientation), False))"

type_synonym SQZ_init_subband_fn =
  "int list \<Rightarrow> SQZ_dwt_subband_t \<Rightarrow> SQZ_scan_context_t \<Rightarrow> SQZ_bit_buffer_t
     \<Rightarrow> (SQZ_status_t \<times> SQZ_dwt_subband_t \<times> SQZ_scan_context_t \<times> SQZ_bit_buffer_t) option"

type_synonym SQZ_bitplane_task_fn =
  "int list \<Rightarrow> SQZ_dwt_subband_t \<Rightarrow> SQZ_bit_buffer_t
     \<Rightarrow> int \<times> int list \<times> SQZ_dwt_subband_t \<times> SQZ_bit_buffer_t"

text \<open>
  What the body of the inner loop does with the current subband: \<open>Inl\<close> is a \<^verbatim>\<open>return\<close>
  from \<^verbatim>\<open>SQZ_schedule_task\<close>, \<open>Inr\<close> carries on with the updated context, scan context and
  \<open>done\<close> flag.  The result of \<^verbatim>\<open>SQZ_scan_init\<close> is not looked at by the source.
\<close>

definition schedule_band ::
  "SQZ_init_subband_fn \<Rightarrow> SQZ_bitplane_task_fn \<Rightarrow> int \<Rightarrow> SQZ_context_t \<Rightarrow> SQZ_scan_context_t
     \<Rightarrow> int \<Rightarrow> nat \<times> nat \<times> nat \<times> nat
     \<Rightarrow> (SQZ_status_t \<times> SQZ_context_t + SQZ_context_t \<times> SQZ_scan_context_t \<times> int) option" where
  "schedule_band init task rnd ctx scan done_flag pos =
     (case pos of (state, plane, level, orientation) \<Rightarrow>
        let band = ctx_band ctx plane level orientation
        in if rnd < band_round band \<or> (rnd > band_round band \<and> band_bitplane band = 0)
           then Some (Inr (ctx, scan, done_flag AND c_bool (rnd > band_round band)))
           else
             case (if band_round band = rnd
                   then (case SQZ_scan_init scan band of
                           None \<Rightarrow> None
                         | Some (r, scan1) \<Rightarrow>
                             init (ctx_data ctx) band scan1 (ctx_buffer ctx))
                   else Some (SQZ_RESULT_OK, band, scan, ctx_buffer ctx)) of
               None \<Rightarrow> None
             | Some (result, band1, scan1, buf1) \<Rightarrow>
                 if result \<noteq> SQZ_RESULT_OK
                 then Some (Inl (result, (set_band ctx plane level orientation band1)\<lparr>ctx_buffer := buf1\<rparr>))
                 else
                   case task (ctx_data ctx) band1 buf1 of
                     (r, data2, band2, buf2) \<Rightarrow>
                       let ctx2 = (set_band ctx plane level orientation band2)
                                    \<lparr>ctx_buffer := buf2, ctx_data := data2\<rparr>
                       in if r = 0 then Some (Inl (SQZ_RESULT_OK, ctx2))
                          else Some (Inr (ctx2, scan1,
                                          done_flag AND c_bool (band_bitplane band2 = 0))))"

partial_function (option) schedule_inner ::
  "SQZ_init_subband_fn \<Rightarrow> SQZ_bitplane_task_fn \<Rightarrow> int \<Rightarrow> SQZ_context_t \<Rightarrow> SQZ_scan_context_t
     \<Rightarrow> int \<Rightarrow> nat \<times> nat \<times> nat \<times> nat
     \<Rightarrow> (SQZ_status_t \<times> SQZ_context_t
          + SQZ_context_t \<times> SQZ_scan_context_t \<times> int \<times> (nat \<times> nat \<times> nat \<times> nat)) option" where
  [code]: "schedule_inner init task rnd ctx scan done_flag pos =
     (case schedule_band init task rnd ctx scan done_flag pos of
        None \<Rightarrow> None
      | Some (Inl r) \<Rightarrow> Some (Inl r)
      | Some (Inr (ctx1, scan1, done1)) \<Rightarrow>
          (case schedule_advance (ctx_image ctx1) pos of
             (pos1, brk) \<Rightarrow>
               if brk then Some (Inr (ctx1, scan1, done1, pos1))
               else schedule_inner init task rnd ctx1 scan1 done1 pos1))"

partial_function (option) schedule_outer ::
  "SQZ_init_subband_fn \<Rightarrow> SQZ_bitplane_task_fn \<Rightarrow> int \<Rightarrow> SQZ_context_t \<Rightarrow> SQZ_scan_context_t
     \<Rightarrow> int \<Rightarrow> nat \<times> nat \<times> nat \<times> nat \<Rightarrow> (SQZ_status_t \<times> SQZ_context_t) option" where
  [code]: "schedule_outer init task rnd ctx scan done_flag pos =
     (if done_flag = 0 \<and> \<not> SQZ_bit_buffer_eob (ctx_buffer ctx)
      then
        case schedule_inner init task rnd ctx scan 1 pos of
          None \<Rightarrow> None
        | Some (Inl r) \<Rightarrow> Some r
        | Some (Inr (ctx1, scan1, done1, pos1)) \<Rightarrow>
            schedule_outer init task (s32 (rnd + 1)) ctx1 scan1 done1 pos1
      else Some (SQZ_RESULT_OK, ctx))"

definition SQZ_schedule_task ::
  "SQZ_context_t \<Rightarrow> SQZ_init_subband_fn \<Rightarrow> SQZ_bitplane_task_fn \<Rightarrow> (SQZ_status_t \<times> SQZ_context_t) option" where
  "SQZ_schedule_task ctx init task =
     schedule_outer init task 0 ctx
       (zero_scan_context\<lparr>scan_type := desc_scan_order (ctx_image ctx)\<rparr>) 0 (0, 0, 0, 0)"

section \<open>Encoding and decoding\<close>

text \<open>
  \<open>SQZ_encode source dest descriptor budget\<close> returns the status with the destination
  buffer, the descriptor, the budget and the source buffer as they are when the call
  returns.  \<open>None\<close> stands for a call that does not return.  Memory allocation is assumed to
  succeed, and \<open>source\<close> and \<open>dest\<close> are distinct blocks of memory.
\<close>

definition SQZ_encode ::
  "int list \<Rightarrow> int list \<Rightarrow> SQZ_image_descriptor_t \<Rightarrow> nat
     \<Rightarrow> (SQZ_status_t \<times> int list \<times> SQZ_image_descriptor_t \<times> nat \<times> int list) option" where
  "SQZ_encode source dest descriptor0 budget =
     (case SQZ_validate_input descriptor0 False of
        (result, descriptor) \<Rightarrow>
          if result \<noteq> SQZ_RESULT_OK then Some (result, dest, descriptor, budget, source)
          else
            let ctx0 = zero_context\<lparr>ctx_image := descriptor,
                                     ctx_buffer := SQZ_bit_buffer_init dest budget\<rparr>
            in case SQZ_encode_header descriptor (ctx_buffer ctx0) of
                 (ok, buf1) \<Rightarrow>
                   if ok = 0
                   then Some (SQZ_BUFFER_TOO_SMALL, buf_data buf1, descriptor, budget, source)
                   else
                     case SQZ_common_init_context (ctx0\<lparr>ctx_buffer := buf1\<rparr>) of
                       (result1, ctx1) \<Rightarrow>
                         if result1 \<noteq> SQZ_RESULT_OK
                         then Some (result1, buf_data (ctx_buffer ctx1), descriptor, budget, source)
                         else
                           case SQZ_color_process ctx1 source True of
                             (ctx2, source1) \<Rightarrow>
                               (case SQZ_dwt ctx2 of
                                  None \<Rightarrow> None
                                | Some (result2, ctx3) \<Rightarrow>
                                    if result2 \<noteq> SQZ_RESULT_OK
                                    then Some (result2, buf_data (ctx_buffer ctx3), descriptor, budget, source1)
                                    else
                                      case SQZ_schedule_task (SQZ_dwt_convert_to_sign_magnitude ctx3)
                                             SQZ_encode_init_subband SQZ_encode_bitplane of
                                        None \<Rightarrow> None
                                      | Some (result3, ctx4) \<Rightarrow>
                                          if result3 \<noteq> SQZ_RESULT_OK
                                          then Some (result3, buf_data (ctx_buffer ctx4), descriptor,
                                                     budget, source1)
                                          else Some (SQZ_RESULT_OK, buf_data (ctx_buffer ctx4), descriptor,
                                                     (SQZ_bit_buffer_bits_used (ctx_buffer ctx4) + 7) div 8,
                                                     source1)))"



section \<open>Auxiliary notions for the properties\<close>

definition sched_round :: "SQZ_image_descriptor_t \<Rightarrow> nat \<Rightarrow> nat \<Rightarrow> nat \<Rightarrow> int" where
  "sched_round im plane level orientation =
     int (SQZ_schedule (desc_color_mode im) plane level orientation)
       + (desc_subsampling im AND c_bool (plane > 0))"

definition round_ok :: "SQZ_image_descriptor_t \<Rightarrow> nat \<times> nat \<times> nat \<Rightarrow> SQZ_context_t \<Rightarrow> bool" where
  "round_ok im plo c = (case plo of (p, l, orn) \<Rightarrow> band_round (ctx_band c p l orn) = sched_round im p l orn)"


text \<open>
  The positions a scan order visits on a \<open>w\<close> by \<open>h\<close> rectangle, in order: the position the
  initialisation leaves in the context followed by the position after each successful step,
  as \<^verbatim>\<open>SQZ_common_init_subband\<close> collects them in the LIP.
\<close>

definition scan_positions :: "int \<Rightarrow> nat \<Rightarrow> nat \<Rightarrow> (nat \<times> nat) list option" where
  "scan_positions order w h =
     (let band = zero_band\<lparr>band_width := w, band_height := h\<rparr>
      in case SQZ_scan_init (zero_scan_context\<lparr>scan_type := order\<rparr>) band of
           None \<Rightarrow> None
         | Some (r, sc) \<Rightarrow>
            (case SQZ_common_init_subband band sc of
               None \<Rightarrow> None
             | Some (r, b, s) \<Rightarrow> Some (band_LIP b)))"

text \<open>The coefficients of a subband, row by row.\<close>

definition band_coefficients :: "int list \<Rightarrow> SQZ_dwt_subband_t \<Rightarrow> int list" where
  "band_coefficients data band =
     concat (map (\<lambda>y. map (\<lambda>x. data ! (band_data band + y * band_stride band + x))
                          [0 ..< band_width band])
                 [0 ..< band_height band])"

text \<open>The position of a bit buffer, in bits from the start.\<close>

definition buf_pos :: "SQZ_bit_buffer_t \<Rightarrow> nat" where
  "buf_pos buffer = buf_ptr buffer * 8 + buf_index buffer"

definition hdr_inv :: "nat \<Rightarrow> nat \<Rightarrow> SQZ_bit_buffer_t \<Rightarrow> bool" where
  "hdr_inv budget n b \<longleftrightarrow>
     buf_index b \<le> 7 \<and> buf_eob b = budget \<and> (SQZ_bit_buffer_eob b \<or> buf_pos b = n)"


section \<open>Properties\<close>

subsection \<open>Integer conversions\<close>

lemma u32_id: "0 \<le> x \<Longrightarrow> x < 2 ^ 32 \<Longrightarrow> u32 x = x"
  by (simp add: u32_def)

lemma u32_neg: "- (2 ^ 32) \<le> x \<Longrightarrow> x < 0 \<Longrightarrow> u32 x = x + 2 ^ 32"
proof -
  assume a: "- (2 ^ 32) \<le> x" "x < 0"
  have "x mod 2 ^ 32 = (x + 2 ^ 32) mod 2 ^ 32" by simp
  also have "\<dots> = x + 2 ^ 32" using a by (intro mod_pos_pos_trivial) auto
  finally show ?thesis by (simp add: u32_def)
qed

lemma s32_id: "- (2 ^ 31) \<le> x \<Longrightarrow> x < 2 ^ 31 \<Longrightarrow> s32 x = x"
  by (simp add: s32_def)

lemma mirror_loop_total:
  assumes m: "0 < m" "m < 2 ^ 16"
  shows "\<bar>v\<bar> \<le> 2 ^ 30 \<Longrightarrow>
         \<exists>u. SQZ_mirror_loop v m = Some u \<and> 0 \<le> u \<and> u \<le> m \<and>
              (2 * m dvd (u - v) \<or> 2 * m dvd (u + v))"
proof (induction "nat (2 * \<bar>v\<bar> + (if v < 0 then 1 else 0))" arbitrary: v rule: less_induct)
  case less
  have um: "u32 m = m" using m by (intro u32_id) auto
  show ?case
  proof (cases "v < 0")
    case True
    then have uv: "u32 v = v + 2 ^ 32" using less.prems by (intro u32_neg) auto
    have gt: "u32 v > u32 m" using uv um m less.prems True by auto
    have s1: "s32 (- v) = - v" using less.prems by (intro s32_id) auto
    have step: "SQZ_mirror_loop v m = SQZ_mirror_loop (- v) m"
      using gt s1 True by (subst SQZ_mirror_loop.simps) (simp add: Let_def)
    have "\<exists>u. SQZ_mirror_loop (- v) m = Some u \<and> 0 \<le> u \<and> u \<le> m \<and>
              (2 * m dvd (u - (- v)) \<or> 2 * m dvd (u + (- v)))"
      using True less.prems by (intro less.hyps) auto
    then show ?thesis unfolding step by auto
  next
    case False
    then have uv: "u32 v = v" using less.prems by (intro u32_id) auto
    show ?thesis
    proof (cases "v > m")
      case gt: True
      have s1: "s32 (- v) = - v" using less.prems by (intro s32_id) auto
      have s2: "s32 (2 * m) = 2 * m" using m by (intro s32_id) auto
      have s3: "s32 (- v + 2 * m) = 2 * m - v" using less.prems m gt
        by (subst s32_id) auto
      have step: "SQZ_mirror_loop v m = SQZ_mirror_loop (2 * m - v) m"
        using gt uv um s1 s2 s3 m by (subst SQZ_mirror_loop.simps) (simp add: Let_def)
      have ih: "\<exists>u. SQZ_mirror_loop (2 * m - v) m = Some u \<and> 0 \<le> u \<and> u \<le> m \<and>
              (2 * m dvd (u - (2 * m - v)) \<or> 2 * m dvd (u + (2 * m - v)))"
        using gt less.prems m by (intro less.hyps) auto
      then obtain u where u: "SQZ_mirror_loop (2 * m - v) m = Some u" "0 \<le> u" "u \<le> m"
        "2 * m dvd (u - (2 * m - v)) \<or> 2 * m dvd (u + (2 * m - v))" by blast
      have a: "2 * m dvd (u + v)" if "2 * m dvd (u - (2 * m - v))"
      proof -
        have "2 * m dvd ((u - (2 * m - v)) + 2 * m)" using that by (intro dvd_add) simp_all
        then show ?thesis by (simp add: algebra_simps)
      qed
      have b: "2 * m dvd (u - v)" if "2 * m dvd (u + (2 * m - v))"
      proof -
        have "2 * m dvd ((u + (2 * m - v)) - 2 * m)" using that by (intro dvd_diff) simp_all
        then show ?thesis by (simp add: algebra_simps)
      qed
      have "2 * m dvd (u - v) \<or> 2 * m dvd (u + v)" using u(4) a b by blast
      then show ?thesis unfolding step using u(1,2,3) by blast
    next
      case le: False
      have "\<not> u32 v > u32 m" using le uv um by simp
      then have "SQZ_mirror_loop v m = Some v"
        using uv by (subst SQZ_mirror_loop.simps) (simp only: if_False)
      moreover have "2 * m dvd (v - v)" by simp
      ultimately show ?thesis using le False by auto
    qed
  qed
qed

lemma reflect_unique:
  fixes u u' v m :: int
  assumes "0 < m" "0 \<le> u" "u \<le> m" "0 \<le> u'" "u' \<le> m"
    and "2 * m dvd (u - v) \<or> 2 * m dvd (u + v)"
    and "2 * m dvd (u' - v) \<or> 2 * m dvd (u' + v)"
  shows "u' = u"
proof -
  note d = assms(6) and d' = assms(7)
  have "2 * m dvd (u' - u) \<or> 2 * m dvd (u' + u)"
  proof -
    { assume "2 * m dvd (u - v)" "2 * m dvd (u' - v)"
      then have "2 * m dvd ((u' - v) - (u - v))" by (rule_tac dvd_diff)
      then have "2 * m dvd (u' - u)" by simp }
    moreover
    { assume "2 * m dvd (u + v)" "2 * m dvd (u' + v)"
      then have "2 * m dvd ((u' + v) - (u + v))" by (rule_tac dvd_diff)
      then have "2 * m dvd (u' - u)" by simp }
    moreover
    { assume "2 * m dvd (u - v)" "2 * m dvd (u' + v)"
      then have "2 * m dvd ((u' + v) + (u - v))" by (rule_tac dvd_add)
      then have "2 * m dvd (u' + u)" by simp }
    moreover
    { assume "2 * m dvd (u + v)" "2 * m dvd (u' - v)"
      then have "2 * m dvd ((u' - v) + (u + v))" by (rule_tac dvd_add)
      then have "2 * m dvd (u' + u)" by simp }
    ultimately show ?thesis using d d' by blast
  qed
  then show ?thesis
  proof
    assume "2 * m dvd (u' - u)"
    then obtain k where k: "u' - u = 2 * m * k" by (auto simp: dvd_def)
    have "\<bar>u' - u\<bar> < 2 * m" using assms by auto
    then have "\<bar>2 * m * k\<bar> < 2 * m" using k by simp
    then have "\<bar>k\<bar> < 1" using assms(1) by (simp add: abs_mult)
    then show ?thesis using k by auto
  next
    assume "2 * m dvd (u' + u)"
    then obtain k where k: "u' + u = 2 * m * k" by (auto simp: dvd_def)
    have b: "0 \<le> u' + u" "u' + u \<le> 2 * m" using assms by auto
    have "k = 0 \<or> k = 1"
    proof -
      have p: "0 < 2 * m" using assms(1) by simp
      have "(2 * m) * 0 \<le> (2 * m) * k" using b k by simp
      then have k0: "0 \<le> k" using p by (simp only: mult_le_cancel_left_pos)
      have "(2 * m) * k \<le> (2 * m) * 1" using b k by simp
      then have k1: "k \<le> 1" using p by (simp only: mult_le_cancel_left_pos)
      show ?thesis using k0 k1 by auto
    qed
    then show ?thesis using k assms by auto
  qed
qed




subsection \<open>The mirror primitive\<close>

text \<open>
  Claim C8.  For every \<open>maximum\<close> in \<open>[0, 2^16)\<close> and every signed value with
  \<open>|value| \<le> 2^30\<close>, \<open>SQZ_mirror\<close> terminates and returns the whole-sample symmetric
  reflection of the value into \<open>[0, maximum]\<close>: the unique \<open>u\<close> in that interval that is
  congruent to the value or to its negation modulo \<open>2 * maximum\<close> when \<open>maximum > 0\<close>,
  and \<open>0\<close> when \<open>maximum = 0\<close>.  In particular \<open>-1\<close> is mirrored to \<open>1\<close>.
\<close>

theorem SQZ_mirror_symmetric_reflection:
  assumes "0 \<le> maximum" "maximum < 2 ^ 16" "\<bar>v\<bar> \<le> 2 ^ 30"
  shows "\<exists>u. SQZ_mirror v maximum = Some u \<and> 0 \<le> u \<and> u \<le> maximum \<and>
           (maximum = 0 \<longrightarrow> u = 0) \<and>
           (0 < maximum \<longrightarrow>
              ((u - v) mod (2 * maximum) = 0 \<or> (u + v) mod (2 * maximum) = 0) \<and>
              (\<forall>u'. 0 \<le> u' \<and> u' \<le> maximum \<and>
                    ((u' - v) mod (2 * maximum) = 0 \<or> (u' + v) mod (2 * maximum) = 0)
                    \<longrightarrow> u' = u)) \<and>
           (v = - 1 \<and> 1 \<le> maximum \<longrightarrow> u = 1)"
proof (cases "maximum = 0")
  case True
  then show ?thesis by (simp add: SQZ_mirror_def)
next
  case False
  then have pos: "0 < maximum" using assms(1) by simp
  from mirror_loop_total[OF pos assms(2) assms(3)]
  obtain u where u: "SQZ_mirror_loop v maximum = Some u" "0 \<le> u" "u \<le> maximum"
    "2 * maximum dvd (u - v) \<or> 2 * maximum dvd (u + v)" by blast
  have uniq: "u' = u" if "0 \<le> u'" "u' \<le> maximum"
    "(u' - v) mod (2 * maximum) = 0 \<or> (u' + v) mod (2 * maximum) = 0" for u'
  proof -
    have "2 * maximum dvd (u' - v) \<or> 2 * maximum dvd (u' + v)"
      using that(3) by (simp only: mod_eq_0_iff_dvd)
    then show ?thesis by (rule reflect_unique[OF pos u(2,3) that(1,2) u(4)])
  qed
  have one: "u = 1" if "v = - 1" "1 \<le> maximum"
  proof -
    have "((1::int) + v) mod (2 * maximum) = 0" using that(1) by simp
    then have "(1::int) = u" using that(2) by (intro uniq) simp_all
    then show ?thesis by simp
  qed
  have r: "SQZ_mirror v maximum = Some u" using False u(1) by (simp add: SQZ_mirror_def)
  have c: "(u - v) mod (2 * maximum) = 0 \<or> (u + v) mod (2 * maximum) = 0"
    using u(4) by (simp only: mod_eq_0_iff_dvd)
  show ?thesis
  proof (intro exI[of _ u] conjI impI allI)
    show "SQZ_mirror v maximum = Some u" by (rule r)
    show "0 \<le> u" "u \<le> maximum" by (rule u(2), rule u(3))
    show "u = 0" if "maximum = 0" using that False by simp
    show "(u - v) mod (2 * maximum) = 0 \<or> (u + v) mod (2 * maximum) = 0" by (rule c)
    show "u' = u" if "0 \<le> u' \<and> u' \<le> maximum \<and>
                    ((u' - v) mod (2 * maximum) = 0 \<or> (u' + v) mod (2 * maximum) = 0)" for u'
      using that by (intro uniq) blast+
    show "u = 1" if "v = - 1 \<and> 1 \<le> maximum" using that by (intro one) blast+
  qed
qed

theorem SQZ_mirror_symmetric_reflection_witness:
  "SQZ_mirror (- 1) 7 = Some 1 \<and> SQZ_mirror 9 7 \<noteq> None"
proof -
  have a: "\<bar>- 1 :: int\<bar> \<le> 2 ^ 30" "\<bar>9 :: int\<bar> \<le> 2 ^ 30" "(0::int) \<le> 7" "(7::int) < 2 ^ 16"
    by simp_all
  from SQZ_mirror_symmetric_reflection[OF a(3) a(4) a(1)]
  obtain u where "SQZ_mirror (- 1) 7 = Some u" "- 1 = (- 1 :: int) \<and> (1::int) \<le> 7 \<longrightarrow> u = 1"
    by blast
  then have "SQZ_mirror (- 1) 7 = Some 1" by simp
  moreover from SQZ_mirror_symmetric_reflection[OF a(3) a(4) a(2)]
  obtain u' where "SQZ_mirror 9 7 = Some u'" by blast
  ultimately show ?thesis by simp
qed

subsection \<open>Integer logarithm\<close>









subsection \<open>Input validation\<close>



subsection \<open>Scheduled rounds of the subbands\<close>

lemma foldl_invariant:
  assumes "\<And>c x. I c \<Longrightarrow> I (f c x)" "I c"
  shows "I (foldl f c xs)"
  using assms(2) by (induction xs arbitrary: c) (simp_all add: assms(1))

lemma foldl_establish:
  assumes step: "\<And>c. I c \<Longrightarrow> Q (f c y)"
      and keep: "\<And>c x. I c \<Longrightarrow> Q c \<Longrightarrow> Q (f c x)"
      and inv: "\<And>c x. I c \<Longrightarrow> I (f c x)"
      and "I c" "y \<in> set xs \<or> Q c"
  shows "Q (foldl f c xs)"
  using assms(4,5)
proof (induction xs arbitrary: c)
  case Nil
  then show ?case by simp
next
  case (Cons a xs)
  have i: "I (f c a)" using Cons.prems(1) by (rule inv)
  have "y \<in> set xs \<or> Q (f c a)"
  proof (cases "y = a")
    case True
    then show ?thesis using step[OF Cons.prems(1)] by simp
  next
    case False
    then show ?thesis using Cons.prems(2) keep[OF Cons.prems(1)] by auto
  qed
  then have "Q (foldl f (f c a) xs)"
    using i by (intro Cons.IH) auto
  then show ?case by simp
qed

lemma set_band_image: "ctx_image (set_band c p l orn b) = ctx_image c"
  by (simp add: set_band_def)

lemma init_band_step_image:
  "ctx_image (set_band c p l orn (init_context_band c p l w h orn)) = ctx_image c"
  by (simp add: set_band_def)

lemma init_band_step_ok:
  "ctx_image c = im \<Longrightarrow> round_ok im (p, l, orn) (set_band c p l orn (init_context_band c p l w h orn))"
  by (simp add: round_ok_def set_band_def init_context_band_def Let_def sched_round_def)

lemma init_band_step_keep:
  "ctx_image c = im \<Longrightarrow> round_ok im plo c \<Longrightarrow>
   round_ok im plo (set_band c p l orn (init_context_band c p l w h orn))"
  by (cases plo) (simp add: round_ok_def set_band_def init_context_band_def Let_def sched_round_def)

lemma init_level_image:
  "ctx_image (fst cwh) = im \<Longrightarrow> ctx_image (fst (init_context_level p cwh l)) = im"
proof -
  assume a: "ctx_image (fst cwh) = im"
  obtain c w h where cwh: "cwh = (c, w, h)" by (cases cwh) auto
  have "ctx_image (foldl (\<lambda>c orn. set_band c p l orn (init_context_band c p l w h orn)) c os) = im" for os
    using a cwh by (intro foldl_invariant[where I = "\<lambda>c. ctx_image c = im"]) (simp_all add: set_band_def)
  then show ?thesis by (simp add: init_context_level_def cwh)
qed

lemma init_level_keep:
  "ctx_image (fst cwh) = im \<Longrightarrow> round_ok im plo (fst cwh) \<Longrightarrow>
   round_ok im plo (fst (init_context_level p cwh l))"
proof -
  assume a: "ctx_image (fst cwh) = im" "round_ok im plo (fst cwh)"
  obtain c w h where cwh: "cwh = (c, w, h)" by (cases cwh) auto
  have "(\<lambda>c. ctx_image c = im \<and> round_ok im plo c)
          (foldl (\<lambda>c orn. set_band c p l orn (init_context_band c p l w h orn)) c os)" for os
    using a cwh
    by (intro foldl_invariant[where I = "\<lambda>c. ctx_image c = im \<and> round_ok im plo c"])
       (simp_all add: init_band_step_image init_band_step_keep)
  then show ?thesis by (simp add: init_context_level_def cwh)
qed

lemma init_level_ok:
  assumes "ctx_image (fst cwh) = im" "orn < 4" "l > 0 \<longrightarrow> 1 \<le> orn"
  shows "round_ok im (p, l, orn) (fst (init_context_level p cwh l))"
proof -
  obtain c w h where cwh: "cwh = (c, w, h)" by (cases cwh) auto
  have mem: "orn \<in> set [nat (c_bool (l > 0)) ..< SQZ_DWT_SUBBANDS]"
    using assms(2,3) by (auto simp: c_bool_def SQZ_DWT_SUBBANDS_def)
  have "round_ok im (p, l, orn)
          (foldl (\<lambda>c orn. set_band c p l orn (init_context_band c p l w h orn)) c
             [nat (c_bool (l > 0)) ..< SQZ_DWT_SUBBANDS])"
  proof (rule foldl_establish[where I = "\<lambda>c. ctx_image c = im" and y = orn])
    show "ctx_image c = im" using assms(1) cwh by simp
    show "orn \<in> set [nat (c_bool (l > 0)) ..< SQZ_DWT_SUBBANDS] \<or> round_ok im (p, l, orn) c"
      using mem by simp
  qed (simp_all add: init_band_step_image init_band_step_keep init_band_step_ok)
  then show ?thesis by (simp add: init_context_level_def cwh)
qed

lemma init_plane_image: "ctx_image c = im \<Longrightarrow> ctx_image (init_context_plane c p) = im"
proof -
  assume a: "ctx_image c = im"
  have "(\<lambda>s. ctx_image (fst s) = im) (foldl (init_context_level p) s0 ls)"
    if "ctx_image (fst s0) = im" for s0 ls
    using that by (intro foldl_invariant[where I = "\<lambda>s. ctx_image (fst s) = im"])
                  (simp_all add: init_level_image)
  then show ?thesis using a by (simp add: init_context_plane_def Let_def)
qed

lemma init_plane_keep:
  assumes "ctx_image c = im" "round_ok im plo c"
  shows "round_ok im plo (init_context_plane c p)"
proof -
  have "(\<lambda>s. ctx_image (fst s) = im \<and> round_ok im plo (fst s)) (foldl (init_context_level p) s0 ls)"
    if "ctx_image (fst s0) = im \<and> round_ok im plo (fst s0)" for s0 ls
    using that by (intro foldl_invariant[where I = "\<lambda>s. ctx_image (fst s) = im \<and> round_ok im plo (fst s)"])
                  (simp_all add: init_level_image init_level_keep)
  moreover have "round_ok im plo (c\<lparr>ctx_plane_data := g\<rparr>)" for g
    using assms(2) by (cases plo) (simp add: round_ok_def)
  ultimately show ?thesis using assms(1) by (simp add: init_context_plane_def Let_def)
qed

lemma init_plane_ok:
  assumes "ctx_image c = im" "l < desc_dwt_levels im" "orn < 4" "l > 0 \<longrightarrow> 1 \<le> orn"
  shows "round_ok im (p, l, orn) (init_context_plane c p)"
proof -
  have "(\<lambda>s. round_ok im (p, l, orn) (fst s)) (foldl (init_context_level p) s0
           (rev [0 ..< desc_dwt_levels im]))"
    if s0: "ctx_image (fst s0) = im" for s0
  proof (rule foldl_establish[where I = "\<lambda>s. ctx_image (fst s) = im" and y = l])
    show "ctx_image (fst s0) = im" by (rule s0)
    show "l \<in> set (rev [0 ..< desc_dwt_levels im]) \<or> round_ok im (p, l, orn) (fst s0)"
      using assms(2) by simp
    show "round_ok im (p, l, orn) (fst (init_context_level p c l))"
      if "ctx_image (fst c) = im" for c
      using that assms(3,4) by (rule init_level_ok)
  qed (simp_all add: init_level_image init_level_keep)
  then show ?thesis using assms(1) by (simp add: init_context_plane_def Let_def)
qed

lemma common_init_context_round:
  assumes "ctx_image ctx = im" "plane < desc_num_planes im" "level < desc_dwt_levels im"
      and "orientation < 4" "level > 0 \<longrightarrow> 1 \<le> orientation"
  shows "band_round (ctx_band (snd (SQZ_common_init_context ctx)) plane level orientation) =
           int (SQZ_schedule (desc_color_mode im) plane level orientation)
             + (desc_subsampling im AND c_bool (plane > 0))"
proof -
  have "round_ok im (plane, level, orientation)
          (foldl init_context_plane c0 [0 ..< desc_num_planes im])"
    if c0: "ctx_image c0 = im" for c0
  proof (rule foldl_establish[where I = "\<lambda>c. ctx_image c = im" and y = plane])
    show "ctx_image c0 = im" by (rule c0)
    show "plane \<in> set [0 ..< desc_num_planes im] \<or> round_ok im (plane, level, orientation) c0"
      using assms(2) by simp
    show "round_ok im (plane, level, orientation) (init_context_plane c plane)"
      if "ctx_image c = im" for c
      using that assms(3,4,5) by (rule init_plane_ok)
  qed (simp_all add: init_plane_image init_plane_keep)
  then show ?thesis using assms(1)
    by (simp add: SQZ_common_init_context_def Let_def round_ok_def sched_round_def)
qed


text \<open>
  Claim C6.  The starting round of a coded subband is the schedule table entry plus
  \<^verbatim>\<open>subsampling & (plane > 0)\<close>, a bitwise AND of the descriptor's integer with 0 or 1.
  For a descriptor whose \<open>subsampling\<close> is set to 2 the chroma subbands therefore start at
  the table entry itself, not one round later: for an 8 by 8 YCoCg-R image with one level,
  the LL subband of plane 1 gets round 1, the table entry.
\<close>

theorem SQZ_common_init_context_subsampling_even:
  "band_round (ctx_band (snd (SQZ_common_init_context
       (zero_context\<lparr>ctx_image := \<lparr>desc_color_mode = SQZ_COLOR_MODE_YCOCG_R, desc_scan_order = 0,
           desc_width = 8, desc_height = 8, desc_dwt_levels = 1, desc_num_planes = 3,
           desc_subsampling = 2\<rparr>\<rparr>))) 1 0 0) = int (SQZ_schedule SQZ_COLOR_MODE_YCOCG_R 1 0 0) \<and>
   int (SQZ_schedule SQZ_COLOR_MODE_YCOCG_R 1 0 0) = 1"
proof -
  define im where "im = \<lparr>desc_color_mode = SQZ_COLOR_MODE_YCOCG_R, desc_scan_order = 0,
           desc_width = 8, desc_height = 8, desc_dwt_levels = 1, desc_num_planes = 3,
           desc_subsampling = 2\<rparr>"
  have "band_round (ctx_band (snd (SQZ_common_init_context (zero_context\<lparr>ctx_image := im\<rparr>))) 1 0 0) =
           int (SQZ_schedule (desc_color_mode im) 1 0 0)
             + (desc_subsampling im AND c_bool ((1::nat) > 0))"
    by (rule common_init_context_round) (simp_all add: im_def)
  moreover have "(2::int) AND 1 = 0" by simp
  moreover have "SQZ_schedule SQZ_COLOR_MODE_YCOCG_R 1 0 0 = 1"
    by (simp add: SQZ_schedule_def SQZ_schedule_table_def SQZ_schedule_chroma_def
          SQZ_COLOR_MODE_YCOCG_R_def)
  ultimately show ?thesis by (simp add: im_def c_bool_def)
qed

subsection \<open>Snake scan order\<close>

lemmas snake_eval_defs =
  scan_positions_def SQZ_scan_init_def SQZ_SCAN_ORDER_RASTER_def SQZ_SCAN_ORDER_SNAKE_def
  SQZ_scan_init_snake_context_def SQZ_SCAN_SNAKE_DEFAULT_TILE_WIDTH_def
  SQZ_SCAN_SNAKE_DEFAULT_TILE_HEIGHT_def snake_tile_width_search.simps
  snake_tile_height_search.simps snake_next_step_def usize_def s32_def c_bool_def
  zero_snake_def zero_band_def zero_scan_context_def SQZ_common_init_subband_def
  init_subband_scan_loop.simps SQZ_list_add_def SQZ_scan_def SQZ_scan_snake_def
  snake_loop_tile_columns_def snake_loop_tile_rows_def snake_loop_grid_columns_def Let_def

text \<open>
  Claim C7.  With the default 4 by 15 tile size, successive positions of the snake scan
  should differ by 1 in one coordinate and 0 in the other.  On a 12 by 8 rectangle the
  tile height is clamped to 8, an even number, while the grid has three columns of
  tiles: the scan visits all 96 positions, but the last position of the first tile,
  \<open>(0, 7)\<close>, is followed by \<open>(7, 7)\<close>, at Manhattan distance 7.
\<close>

theorem SQZ_scan_snake_jump_12x8:
  "map_option (\<lambda>l. (length l, l ! 31, l ! 32)) (scan_positions SQZ_SCAN_ORDER_SNAKE 12 8)
     = Some (96, (0, 7), (7, 7))"
  by (simp add: snake_eval_defs)

subsection \<open>Highest bitplane of a subband\<close>


lemma foldl_max_append: "foldl max (foldl max (m::int) xs) ys = foldl max m (xs @ ys)"
  by simp




lemma band_coefficients_elim:
  assumes "v \<in> set (band_coefficients data band)"
  obtains x y where "x < band_width band" "y < band_height band"
    "v = data ! (band_data band + y * band_stride band + x)"
proof -
  from assms obtain row where row: "row \<in> set (map (\<lambda>y. map (\<lambda>x. data ! (band_data band + y * band_stride band + x))
                          [0 ..< band_width band]) [0 ..< band_height band])" "v \<in> set row"
    unfolding band_coefficients_def set_concat by (elim UN_E)
  from row(1) obtain y where y: "y < band_height band"
    "row = map (\<lambda>x. data ! (band_data band + y * band_stride band + x)) [0 ..< band_width band]"
    by auto
  from row(2) y(2) obtain x where "x < band_width band" "v = data ! (band_data band + y * band_stride band + x)"
    by auto
  then show ?thesis using y(1) that by blast
qed










subsection \<open>Encoding with a budget no larger than the header\<close>

lemma write_bit_cases:
  assumes "buf_index b \<le> 7"
  shows "buf_eob (snd (SQZ_bit_buffer_write_bit b v)) = buf_eob b \<and>
         buf_index (snd (SQZ_bit_buffer_write_bit b v)) \<le> 7 \<and>
         ((fst (SQZ_bit_buffer_write_bit b v) = 1 \<and>
           buf_pos (snd (SQZ_bit_buffer_write_bit b v)) = buf_pos b + 1)
          \<or> (fst (SQZ_bit_buffer_write_bit b v) = 0 \<and> SQZ_bit_buffer_eob b \<and>
              snd (SQZ_bit_buffer_write_bit b v) = b))"
  using assms
  by (auto simp: SQZ_bit_buffer_write_bit_def SQZ_bit_buffer_eob_def buf_or_byte_def Let_def
        SQZ_BIT_BUFFER_MSB_def buf_pos_def)

lemma write_bits_cases:
  "buf_index b \<le> 7 \<Longrightarrow>
     buf_eob (snd (SQZ_bit_buffer_write_bits b v w)) = buf_eob b \<and>
     buf_index (snd (SQZ_bit_buffer_write_bits b v w)) \<le> 7 \<and>
     ((fst (SQZ_bit_buffer_write_bits b v w) = 1 \<and>
       buf_pos (snd (SQZ_bit_buffer_write_bits b v w)) = buf_pos b + w)
      \<or> (fst (SQZ_bit_buffer_write_bits b v w) = 0 \<and>
          SQZ_bit_buffer_eob (snd (SQZ_bit_buffer_write_bits b v w))))"
proof (induction b v w rule: SQZ_bit_buffer_write_bits.induct)
  case (1 buffer bits width)
  show ?case
  proof (cases "SQZ_bit_buffer_eob buffer")
    case True
    then show ?thesis using "1.prems"
      by (subst (1 2 3 4 5 6) SQZ_bit_buffer_write_bits.simps) simp
  next
    case ne: False
    define bits_free where "bits_free = (SQZ_BIT_BUFFER_MSB + 1) - buf_index buffer"
    have bf: "bits_free = 8 - buf_index buffer" "0 < bits_free"
      using "1.prems" by (auto simp: bits_free_def SQZ_BIT_BUFFER_MSB_def)
    show ?thesis
    proof (cases "bits_free \<ge> width")
      case True
      have "SQZ_bit_buffer_write_bits buffer bits width =
         (let b1 = buf_or_byte buffer
                        (u32 (push_bit (bits_free - width) (bits AND (u32 (push_bit width 1) - 1))));
              b2 = b1\<lparr>buf_index := buf_index b1 + width\<rparr>
          in if buf_index b2 > SQZ_BIT_BUFFER_MSB
             then (1, b2\<lparr>buf_ptr := buf_ptr b2 + 1, buf_index := 0\<rparr>)
             else (1, b2))"
        using ne True
        by (subst SQZ_bit_buffer_write_bits.simps) (simp add: bits_free_def Let_def)
      then show ?thesis using True bf "1.prems"
        by (auto simp: Let_def buf_or_byte_def SQZ_BIT_BUFFER_MSB_def buf_pos_def)
    next
      case False
      define b1 where "b1 = buf_or_byte buffer
                        (drop_bit (width - bits_free) bits AND (u32 (push_bit bits_free 1) - 1))"
      define b2 where "b2 = b1\<lparr>buf_ptr := buf_ptr b1 + 1, buf_index := 0\<rparr>"
      have eq: "SQZ_bit_buffer_write_bits buffer bits width =
                SQZ_bit_buffer_write_bits b2 bits (width - bits_free)"
        using ne False
        by (subst SQZ_bit_buffer_write_bits.simps) (simp add: bits_free_def Let_def b1_def b2_def)
      have i2: "buf_index b2 \<le> 7" by (simp add: b2_def)
      have ih: "buf_eob (snd (SQZ_bit_buffer_write_bits b2 bits (width - bits_free))) = buf_eob b2 \<and>
         buf_index (snd (SQZ_bit_buffer_write_bits b2 bits (width - bits_free))) \<le> 7 \<and>
         ((fst (SQZ_bit_buffer_write_bits b2 bits (width - bits_free)) = 1 \<and>
           buf_pos (snd (SQZ_bit_buffer_write_bits b2 bits (width - bits_free)))
              = buf_pos b2 + (width - bits_free))
          \<or> (fst (SQZ_bit_buffer_write_bits b2 bits (width - bits_free)) = 0 \<and>
              SQZ_bit_buffer_eob (snd (SQZ_bit_buffer_write_bits b2 bits (width - bits_free)))))"
        using "1.IH"[OF ne bits_free_def False b1_def[unfolded bits_free_def, folded bits_free_def] i2[unfolded b2_def]]
        unfolding b2_def by simp
      have p2: "buf_pos b2 = buf_pos buffer + bits_free" "buf_eob b2 = buf_eob buffer"
        using bf "1.prems" by (auto simp: b2_def b1_def buf_or_byte_def buf_pos_def)
      show ?thesis unfolding eq using ih p2 False by auto
    qed
  qed
qed


lemma hdr_inv_write_bits:
  assumes "hdr_inv budget n b"
  shows "hdr_inv budget (n + w) (snd (SQZ_bit_buffer_write_bits b v w))"
proof (cases "SQZ_bit_buffer_eob b")
  case True
  then have "SQZ_bit_buffer_write_bits b v w = (0, b)"
    by (subst SQZ_bit_buffer_write_bits.simps) simp
  then show ?thesis using assms True by (simp add: hdr_inv_def)
next
  case False
  then have "buf_pos b = n" "buf_index b \<le> 7" "buf_eob b = budget"
    using assms by (auto simp: hdr_inv_def)
  then show ?thesis using write_bits_cases[of b v w] by (auto simp: hdr_inv_def)
qed

lemma hdr_inv_write_bit:
  assumes "hdr_inv budget n b"
  shows "hdr_inv budget (n + 1) (snd (SQZ_bit_buffer_write_bit b v))"
proof -
  define r where "r = SQZ_bit_buffer_write_bit b v"
  have a: "buf_index b \<le> 7" "buf_eob b = budget" "SQZ_bit_buffer_eob b \<or> buf_pos b = n"
    using assms by (simp_all add: hdr_inv_def)
  from write_bit_cases[OF a(1), of v]
  have c: "buf_eob (snd r) = buf_eob b" "buf_index (snd r) \<le> 7"
          "buf_pos (snd r) = buf_pos b + 1 \<or> (SQZ_bit_buffer_eob b \<and> snd r = b)"
    unfolding r_def by blast+
  have e: "SQZ_bit_buffer_eob b \<Longrightarrow> snd r = b"
    unfolding r_def by (simp add: SQZ_bit_buffer_write_bit_def)
  have "SQZ_bit_buffer_eob (snd r) \<or> buf_pos (snd r) = n + 1"
  proof (cases "SQZ_bit_buffer_eob b")
    case True then show ?thesis using e by simp
  next
    case False then show ?thesis using c(3) a(3) by simp
  qed
  then show ?thesis using c(1,2) a(2) unfolding hdr_inv_def r_def by simp
qed

lemma encode_header_small_budget:
  assumes "budget \<le> SQZ_HEADER_SIZE"
  shows "fst (SQZ_encode_header descriptor (SQZ_bit_buffer_init dest budget)) = 0"
proof -
  have i0: "hdr_inv budget 0 (SQZ_bit_buffer_init dest budget)"
    by (simp add: hdr_inv_def SQZ_bit_buffer_init_def buf_pos_def)
  define b7 where "b7 = snd (SQZ_encode_header descriptor (SQZ_bit_buffer_init dest budget))"
  have "hdr_inv budget (0 + 8 + 16 + 16 + 2 + 3 + 2 + 1) b7"
    unfolding b7_def SQZ_encode_header_def Let_def snd_conv
    by (intro hdr_inv_write_bit hdr_inv_write_bits i0)
  then have h: "buf_index b7 \<le> 7" "buf_eob b7 = budget" "SQZ_bit_buffer_eob b7 \<or> buf_pos b7 = 48"
    by (simp_all add: hdr_inv_def)
  have "SQZ_bit_buffer_eob b7"
  proof (rule ccontr)
    assume n: "\<not> SQZ_bit_buffer_eob b7"
    then have "buf_ptr b7 * 8 + buf_index b7 = 48" using h(3) by (simp add: buf_pos_def)
    then have "buf_ptr b7 \<ge> 6" using h(1) by arith
    then show False using n h(2) assms by (simp add: SQZ_bit_buffer_eob_def SQZ_HEADER_SIZE_def)
  qed
  then show ?thesis
    unfolding b7_def by (simp add: SQZ_encode_header_def Let_def c_bool_def)
qed

text \<open>
  Claim C9: when the descriptor is valid and the byte budget passed to \<open>SQZ_encode\<close> is at
  most \<open>SQZ_HEADER_SIZE\<close> (6 bytes), the encoder returns \<open>SQZ_BUFFER_TOO_SMALL\<close>.
  The header is 48 bits long, so after writing it the write position has reached the end of
  the buffer and \<open>SQZ_encode_header\<close> reports failure; the budget is left as passed in.
\<close>
theorem SQZ_encode_budget_at_most_header:
  assumes "fst (SQZ_validate_input descriptor False) = SQZ_RESULT_OK"
      and "budget \<le> SQZ_HEADER_SIZE"
  shows "\<exists>dest' descriptor'.
           SQZ_encode source dest descriptor budget
             = Some (SQZ_BUFFER_TOO_SMALL, dest', descriptor', budget, source)"
proof -
  obtain d1 where v: "SQZ_validate_input descriptor False = (SQZ_RESULT_OK, d1)"
    using assms(1) by (cases "SQZ_validate_input descriptor False") auto
  obtain ok b1 where h: "SQZ_encode_header d1 (SQZ_bit_buffer_init dest budget) = (ok, b1)"
    by (cases "SQZ_encode_header d1 (SQZ_bit_buffer_init dest budget)") auto
  have "ok = 0" using encode_header_small_budget[OF assms(2), of d1 dest] h by simp
  then show ?thesis
    unfolding SQZ_encode_def v by (simp add: Let_def h)
qed

theorem SQZ_encode_budget_at_most_header_witness:
  "\<exists>dest' descriptor'.
     SQZ_encode (replicate 64 128) (replicate 6 0)
        \<lparr>desc_color_mode = 0, desc_scan_order = 0, desc_width = 8, desc_height = 8,
         desc_dwt_levels = 1, desc_num_planes = 1, desc_subsampling = 0\<rparr> 6
       = Some (SQZ_BUFFER_TOO_SMALL, dest', descriptor', 6, replicate 64 128)"
proof -
  have i: "SQZ_ilog2 8 = 4" by code_simp
  have u: "u32 8 = 8" "u32 1 = 1" by (simp_all add: u32_def)
  have v: "fst (SQZ_validate_input \<lparr>desc_color_mode = 0, desc_scan_order = 0, desc_width = 8, desc_height = 8,
         desc_dwt_levels = 1, desc_num_planes = 1, desc_subsampling = 0\<rparr> False) = SQZ_RESULT_OK"
    by (simp add: SQZ_validate_input_def SQZ_MIN_DIMENSION_def SQZ_MAX_DIMENSION_def
         SQZ_COLOR_MODE_GRAYSCALE_def SQZ_COLOR_MODE_COUNT_def SQZ_SCAN_ORDER_RASTER_def
         SQZ_SCAN_ORDER_COUNT_def SQZ_DWT_MAX_LEVEL_def i u SQZ_number_of_planes_def)
  have b: "(6::nat) \<le> SQZ_HEADER_SIZE" by (simp add: SQZ_HEADER_SIZE_def)
  show ?thesis by (rule SQZ_encode_budget_at_most_header[OF v b])
qed

subsection \<open>The input buffers are left as they are\<close>




































subsection \<open>The bound on the number of decomposition levels\<close>
















end
